theory Spec2Isabelle
  imports Main "HOL-Library.Sublist" "HOL-Library.AList"
begin

section \<open>Grafana dashboard patch scripts\<close>

text \<open>
  Both scripts load \<^verbatim>\<open>grafana/dashboards/overview.json\<close>, edit the list under the key
  \<^verbatim>\<open>panels\<close> in memory and dump the document back to the same path as their last effect.
  The model below follows the Python statement by statement:
  \<^item> a JSON document as loaded by \<^verbatim>\<open>json.load\<close> is a value of type \<open>json\<close>; a Python
    \<^verbatim>\<open>dict\<close> is an association list in insertion order (\<^verbatim>\<open>json.dump\<close> writes the keys in
    that order), read with \<open>map_of\<close> and written with \<open>AList.update\<close>, which keeps
    the position of an existing key as a Python dict does;
  \<^item> every exception the statements can raise on a document of any shape is a value of
    \<open>py_exc\<close>, and an uncaught one ends the run before the dump;
  \<^item> a run is a function from the file's content to the exit status, the lines printed and
    the file's content afterwards.

  Not modelled: JSON numbers with a fraction or an exponent (Python \<^verbatim>\<open>float\<close>), and failures of
  \<^verbatim>\<open>open\<close>, \<^verbatim>\<open>json.load\<close> and \<^verbatim>\<open>json.dump\<close> themselves; the file is taken to exist, to hold
  a JSON document whose numbers are integers, and to be writable.

  A Python dict has each key once. An association list that repeats a key stands for no
  loaded document; the operations are defined on it all the same (the first entry of a key
  counts), and no theorem below needs to exclude it.
\<close>

subsection \<open>JSON values and the Python operations used on them\<close>

datatype json =
    JNull
  | JBool bool
  | JInt int
  | JStr string
  | JArr "json list"
  | JObj "(string \<times> json) list"

datatype py_exc = KeyError | TypeError | AttributeError | IndexError

text \<open>Sequencing of statements that may raise: the first exception wins.\<close>

definition exc_bind :: "py_exc + 'a \<Rightarrow> ('a \<Rightarrow> py_exc + 'b) \<Rightarrow> py_exc + 'b" where
  "exc_bind m f = (case m of Inl e \<Rightarrow> Inl e | Inr v \<Rightarrow> f v)"

text \<open>\<^verbatim>\<open>obj[key]\<close> with a string key: only a dict can be subscripted by a string.\<close>

fun getitem :: "json \<Rightarrow> string \<Rightarrow> py_exc + json" where
  "getitem (JObj kv) k = (case map_of kv k of None \<Rightarrow> Inl KeyError | Some v \<Rightarrow> Inr v)"
| "getitem _ k = Inl TypeError"

text \<open>\<^verbatim>\<open>obj[key] = v\<close> with a string key.\<close>

fun setitem :: "json \<Rightarrow> string \<Rightarrow> json \<Rightarrow> py_exc + json" where
  "setitem (JObj kv) k v = Inr (JObj (AList.update k v kv))"
| "setitem _ k v = Inl TypeError"

text \<open>\<^verbatim>\<open>obj.get(key)\<close>: \<^verbatim>\<open>None\<close> for a missing key; only a dict has the method.\<close>

fun dict_get :: "json \<Rightarrow> string \<Rightarrow> py_exc + json" where
  "dict_get (JObj kv) k = Inr (case map_of kv k of None \<Rightarrow> JNull | Some v \<Rightarrow> v)"
| "dict_get _ k = Inl AttributeError"

text \<open>Substring test, Python's \<^verbatim>\<open>sub in s\<close> on two strings.\<close>

fun str_contains :: "string \<Rightarrow> string \<Rightarrow> bool" where
  "str_contains [] sub = (sub = [])"
| "str_contains (c # cs) sub = (prefix sub (c # cs) \<or> str_contains cs sub)"

text \<open>
  \<^verbatim>\<open>key in obj\<close> with a string key: key membership in a dict, element membership in a list,
  substring test in a string; the other values are not iterable.
\<close>

fun py_in :: "string \<Rightarrow> json \<Rightarrow> py_exc + bool" where
  "py_in k (JObj kv) = Inr (k \<in> fst ` set kv)"
| "py_in k (JArr xs) = Inr (JStr k \<in> set xs)"
| "py_in k (JStr s) = Inr (str_contains s k)"
| "py_in k _ = Inl TypeError"

text \<open>\<^verbatim>\<open>v + n\<close> and \<^verbatim>\<open>v >= n\<close> with an integer \<open>n\<close>: \<^verbatim>\<open>bool\<close> is a subclass of \<^verbatim>\<open>int\<close>.\<close>

fun py_add :: "json \<Rightarrow> int \<Rightarrow> py_exc + int" where
  "py_add (JInt v) n = Inr (v + n)"
| "py_add (JBool b) n = Inr (of_bool b + n)"
| "py_add _ n = Inl TypeError"

fun py_ge :: "json \<Rightarrow> int \<Rightarrow> py_exc + bool" where
  "py_ge (JInt v) n = Inr (v \<ge> n)"
| "py_ge (JBool b) n = Inr (of_bool b \<ge> n)"
| "py_ge _ n = Inl TypeError"

text \<open>
  Iteration (\<^verbatim>\<open>for\<close>, \<^verbatim>\<open>enumerate\<close>): a list yields its elements, a dict its keys, a string
  its characters as one-character strings.
\<close>

fun iter :: "json \<Rightarrow> py_exc + json list" where
  "iter (JArr xs) = Inr xs"
| "iter (JObj kv) = Inr (map (\<lambda>(k, v). JStr k) kv)"
| "iter (JStr s) = Inr (map (\<lambda>c. JStr [c]) s)"
| "iter _ = Inl TypeError"

text \<open>
  A \<^verbatim>\<open>for panel in ...:\<close> loop whose body mutates \<open>panel\<close> in place and may raise.
\<close>

fun for_each :: "(json \<Rightarrow> py_exc + json) \<Rightarrow> json list \<Rightarrow> py_exc + json list" where
  "for_each body [] = Inr []"
| "for_each body (panel # rest) =
     exc_bind (body panel) (\<lambda>panel'. exc_bind (for_each body rest) (\<lambda>rest'. Inr (panel' # rest')))"

subsection \<open>Panel factories\<close>

text \<open>
  The keyword arguments with defaults (\<^verbatim>\<open>description=""\<close>, \<^verbatim>\<open>unit="short"\<close>,
  \<^verbatim>\<open>colorMode="value"\<close>, \<^verbatim>\<open>max_value=100\<close>; \<^verbatim>\<open>panel_id=300, x=0, y=1, w=24, h=8\<close>) are
  ordinary parameters here, in the order of the Python signature; a call site that omits
  one passes the default. The argument \<open>y\<close> of \<open>create_tx_creation_panel\<close> is a JSON value:
  the script passes whatever it read from the existing panel.
\<close>

definition create_row_panel :: "string \<Rightarrow> int \<Rightarrow> int \<Rightarrow> json" where
  "create_row_panel title y_pos panel_id =
    JObj [
    (''collapsed'', JBool False),
    (''gridPos'', JObj [
      (''h'', JInt 1),
      (''w'', JInt 24),
      (''x'', JInt 0),
      (''y'', JInt y_pos)]),
    (''id'', JInt panel_id),
    (''panels'', JArr []),
    (''title'', JStr title),
    (''type'', JStr ''row'')]"

definition create_timeseries_panel :: "string \<Rightarrow> string \<Rightarrow> string \<Rightarrow> int \<Rightarrow> int \<Rightarrow> int \<Rightarrow> int \<Rightarrow> int \<Rightarrow> string \<Rightarrow> string \<Rightarrow> json" where
  "create_timeseries_panel title expr legend_format x y w h panel_id description unit =
    JObj [
    (''datasource'', JStr ''Prometheus''),
    (''description'', JStr description),
    (''fieldConfig'', JObj [
      (''defaults'', JObj [
        (''color'', JObj [
          (''mode'', JStr ''palette-classic'')]),
        (''custom'', JObj [
          (''axisBorderShow'', JBool False),
          (''axisCenteredZero'', JBool False),
          (''axisColorMode'', JStr ''text''),
          (''axisLabel'', JStr ''''),
          (''axisPlacement'', JStr ''auto''),
          (''barAlignment'', JInt 0),
          (''drawStyle'', JStr ''line''),
          (''fillOpacity'', JInt 10),
          (''gradientMode'', JStr ''none''),
          (''hideFrom'', JObj [
            (''legend'', JBool False),
            (''tooltip'', JBool False),
            (''viz'', JBool False)]),
          (''insertNulls'', JBool False),
          (''lineInterpolation'', JStr ''smooth''),
          (''lineWidth'', JInt 1),
          (''pointSize'', JInt 5),
          (''scaleDistribution'', JObj [
            (''type'', JStr ''linear'')]),
          (''showPoints'', JStr ''auto''),
          (''spanNulls'', JBool False),
          (''stacking'', JObj [
            (''group'', JStr ''A''),
            (''mode'', JStr ''none'')]),
          (''thresholdsStyle'', JObj [
            (''mode'', JStr ''off'')])]),
        (''mappings'', JArr []),
        (''thresholds'', JObj [
          (''mode'', JStr ''absolute''),
          (''steps'', JArr [JObj [
              (''color'', JStr ''green''),
              (''value'', JNull)], JObj [
              (''color'', JStr ''red''),
              (''value'', JInt 80)]])]),
        (''unit'', JStr unit)]),
      (''overrides'', JArr [])]),
    (''gridPos'', JObj [
      (''h'', JInt h),
      (''w'', JInt w),
      (''x'', JInt x),
      (''y'', JInt y)]),
    (''id'', JInt panel_id),
    (''options'', JObj [
      (''legend'', JObj [
        (''calcs'', JArr [JStr ''last'']),
        (''displayMode'', JStr ''table''),
        (''placement'', JStr ''bottom''),
        (''showLegend'', JBool True)]),
      (''tooltip'', JObj [
        (''mode'', JStr ''multi''),
        (''sort'', JStr ''desc'')])]),
    (''targets'', JArr [JObj [
        (''datasource'', JObj [
          (''type'', JStr ''prometheus''),
          (''uid'', JStr ''Prometheus'')]),
        (''editorMode'', JStr ''code''),
        (''expr'', JStr expr),
        (''instant'', JBool False),
        (''legendFormat'', JStr legend_format),
        (''range'', JBool True),
        (''refId'', JStr ''A'')]]),
    (''title'', JStr title),
    (''type'', JStr ''timeseries'')]"

definition create_stat_panel :: "string \<Rightarrow> string \<Rightarrow> int \<Rightarrow> int \<Rightarrow> int \<Rightarrow> int \<Rightarrow> int \<Rightarrow> string \<Rightarrow> string \<Rightarrow> string \<Rightarrow> json" where
  "create_stat_panel title expr x y w h panel_id description unit colorMode =
    JObj [
    (''datasource'', JStr ''Prometheus''),
    (''description'', JStr description),
    (''fieldConfig'', JObj [
      (''defaults'', JObj [
        (''color'', JObj [
          (''mode'', JStr ''thresholds'')]),
        (''mappings'', JArr []),
        (''thresholds'', JObj [
          (''mode'', JStr ''absolute''),
          (''steps'', JArr [JObj [
              (''color'', JStr ''green''),
              (''value'', JNull)], JObj [
              (''color'', JStr ''red''),
              (''value'', JInt 80)]])]),
        (''unit'', JStr unit)]),
      (''overrides'', JArr [])]),
    (''gridPos'', JObj [
      (''h'', JInt h),
      (''w'', JInt w),
      (''x'', JInt x),
      (''y'', JInt y)]),
    (''id'', JInt panel_id),
    (''options'', JObj [
      (''colorMode'', JStr colorMode),
      (''graphMode'', JStr ''area''),
      (''justifyMode'', JStr ''auto''),
      (''orientation'', JStr ''auto''),
      (''reduceOptions'', JObj [
        (''calcs'', JArr [JStr ''lastNotNull'']),
        (''fields'', JStr ''''),
        (''values'', JBool False)]),
      (''textMode'', JStr ''auto'')]),
    (''pluginVersion'', JStr ''11.2.0''),
    (''targets'', JArr [JObj [
        (''datasource'', JObj [
          (''type'', JStr ''prometheus''),
          (''uid'', JStr ''Prometheus'')]),
        (''editorMode'', JStr ''code''),
        (''expr'', JStr expr),
        (''instant'', JBool True),
        (''legendFormat'', JStr ''__auto''),
        (''range'', JBool False),
        (''refId'', JStr ''A'')]]),
    (''title'', JStr title),
    (''type'', JStr ''stat'')]"

definition create_gauge_panel :: "string \<Rightarrow> string \<Rightarrow> int \<Rightarrow> int \<Rightarrow> int \<Rightarrow> int \<Rightarrow> int \<Rightarrow> string \<Rightarrow> int \<Rightarrow> json" where
  "create_gauge_panel title expr x y w h panel_id description max_value =
    JObj [
    (''datasource'', JStr ''Prometheus''),
    (''description'', JStr description),
    (''fieldConfig'', JObj [
      (''defaults'', JObj [
        (''color'', JObj [
          (''mode'', JStr ''thresholds'')]),
        (''mappings'', JArr []),
        (''max'', JInt max_value),
        (''min'', JInt 0),
        (''thresholds'', JObj [
          (''mode'', JStr ''absolute''),
          (''steps'', JArr [JObj [
              (''color'', JStr ''green''),
              (''value'', JNull)], JObj [
              (''color'', JStr ''yellow''),
              (''value'', JInt 70)], JObj [
              (''color'', JStr ''red''),
              (''value'', JInt 90)]])]),
        (''unit'', JStr ''percent'')]),
      (''overrides'', JArr [])]),
    (''gridPos'', JObj [
      (''h'', JInt h),
      (''w'', JInt w),
      (''x'', JInt x),
      (''y'', JInt y)]),
    (''id'', JInt panel_id),
    (''options'', JObj [
      (''minVizHeight'', JInt 75),
      (''minVizWidth'', JInt 75),
      (''orientation'', JStr ''auto''),
      (''reduceOptions'', JObj [
        (''calcs'', JArr [JStr ''lastNotNull'']),
        (''fields'', JStr ''''),
        (''values'', JBool False)]),
      (''showThresholdLabels'', JBool False),
      (''showThresholdMarkers'', JBool True)]),
    (''pluginVersion'', JStr ''11.2.0''),
    (''targets'', JArr [JObj [
        (''datasource'', JObj [
          (''type'', JStr ''prometheus''),
          (''uid'', JStr ''Prometheus'')]),
        (''editorMode'', JStr ''code''),
        (''expr'', JStr expr),
        (''instant'', JBool True),
        (''legendFormat'', JStr ''__auto''),
        (''range'', JBool False),
        (''refId'', JStr ''A'')]]),
    (''title'', JStr title),
    (''type'', JStr ''gauge'')]"

definition create_tx_creation_panel :: "int \<Rightarrow> int \<Rightarrow> json \<Rightarrow> int \<Rightarrow> int \<Rightarrow> json" where
  "create_tx_creation_panel panel_id x y w h =
    JObj [
    (''datasource'', JStr ''Prometheus''),
    (''description'', JStr ''Transaction creation over time. Shows when read-only (RO) and read-write (RW) transactions are being created (number of new transactions in each time bucket).''),
    (''fieldConfig'', JObj [
      (''defaults'', JObj [
        (''color'', JObj [
          (''mode'', JStr ''palette-classic'')]),
        (''custom'', JObj [
          (''axisBorderShow'', JBool False),
          (''axisCenteredZero'', JBool False),
          (''axisColorMode'', JStr ''text''),
          (''axisLabel'', JStr ''Transactions created''),
          (''axisPlacement'', JStr ''auto''),
          (''barAlignment'', JInt 0),
          (''drawStyle'', JStr ''line''),
          (''fillOpacity'', JInt 15),
          (''gradientMode'', JStr ''opacity''),
          (''hideFrom'', JObj [
            (''legend'', JBool False),
            (''tooltip'', JBool False),
            (''viz'', JBool False)]),
          (''insertNulls'', JBool False),
          (''lineInterpolation'', JStr ''smooth''),
          (''lineWidth'', JInt 2),
          (''pointSize'', JInt 5),
          (''scaleDistribution'', JObj [
            (''type'', JStr ''linear'')]),
          (''showPoints'', JStr ''never''),
          (''spanNulls'', JBool False),
          (''stacking'', JObj [
            (''group'', JStr ''A''),
            (''mode'', JStr ''none'')]),
          (''thresholdsStyle'', JObj [
            (''mode'', JStr ''off'')])]),
        (''mappings'', JArr []),
        (''thresholds'', JObj [
          (''mode'', JStr ''absolute''),
          (''steps'', JArr [JObj [
              (''color'', JStr ''green''),
              (''value'', JNull)], JObj [
              (''color'', JStr ''red''),
              (''value'', JInt 80)]])]),
        (''unit'', JStr ''short'')]),
      (''overrides'', JArr [JObj [
          (''matcher'', JObj [
            (''id'', JStr ''byName''),
            (''options'', JStr ''Read-Only (RO)'')]),
          (''properties'', JArr [JObj [
              (''id'', JStr ''color''),
              (''value'', JObj [
                (''fixedColor'', JStr ''blue''),
                (''mode'', JStr ''fixed'')])]])], JObj [
          (''matcher'', JObj [
            (''id'', JStr ''byName''),
            (''options'', JStr ''Read-Write (RW)'')]),
          (''properties'', JArr [JObj [
              (''id'', JStr ''color''),
              (''value'', JObj [
                (''fixedColor'', JStr ''orange''),
                (''mode'', JStr ''fixed'')])]])], JObj [
          (''matcher'', JObj [
            (''id'', JStr ''byName''),
            (''options'', JStr ''Total'')]),
          (''properties'', JArr [JObj [
              (''id'', JStr ''color''),
              (''value'', JObj [
                (''fixedColor'', JStr ''purple''),
                (''mode'', JStr ''fixed'')])], JObj [
              (''id'', JStr ''custom.lineStyle''),
              (''value'', JObj [
                (''dash'', JArr [JInt 10, JInt 10]),
                (''fill'', JStr ''dash'')])], JObj [
              (''id'', JStr ''custom.fillOpacity''),
              (''value'', JInt 0)]])]])]),
    (''gridPos'', JObj [
      (''h'', JInt h),
      (''w'', JInt w),
      (''x'', JInt x),
      (''y'', y)]),
    (''id'', JInt panel_id),
    (''options'', JObj [
      (''legend'', JObj [
        (''calcs'', JArr [JStr ''last'', JStr ''mean'', JStr ''max'']),
        (''displayMode'', JStr ''table''),
        (''placement'', JStr ''bottom''),
        (''showLegend'', JBool True),
        (''sortBy'', JStr ''Last''),
        (''sortDesc'', JBool True)]),
      (''tooltip'', JObj [
        (''mode'', JStr ''multi''),
        (''sort'', JStr ''desc'')])]),
    (''pluginVersion'', JStr ''11.2.0''),
    (''targets'', JArr [JObj [
        (''datasource'', JObj [
          (''type'', JStr ''prometheus''),
          (''uid'', JStr ''Prometheus'')]),
        (''editorMode'', JStr ''code''),
        (''expr'', JStr ''increase(katana_db_transaction_ro_created[$__rate_interval])''),
        (''instant'', JBool False),
        (''legendFormat'', JStr ''Read-Only (RO)''),
        (''range'', JBool True),
        (''refId'', JStr ''A'')], JObj [
        (''datasource'', JObj [
          (''type'', JStr ''prometheus''),
          (''uid'', JStr ''Prometheus'')]),
        (''editorMode'', JStr ''code''),
        (''expr'', JStr ''increase(katana_db_transaction_rw_created[$__rate_interval])''),
        (''instant'', JBool False),
        (''legendFormat'', JStr ''Read-Write (RW)''),
        (''range'', JBool True),
        (''refId'', JStr ''B'')], JObj [
        (''datasource'', JObj [
          (''type'', JStr ''prometheus''),
          (''uid'', JStr ''Prometheus'')]),
        (''editorMode'', JStr ''code''),
        (''expr'', JStr ''increase(katana_db_transaction_ro_created[$__rate_interval]) + increase(katana_db_transaction_rw_created[$__rate_interval])''),
        (''instant'', JBool False),
        (''legendFormat'', JStr ''Total''),
        (''range'', JBool True),
        (''refId'', JStr ''C'')]]),
    (''title'', JStr ''Transaction Creation''),
    (''type'', JStr ''timeseries'')]"

subsection \<open>The bulk script: \<^verbatim>\<open>generate_db_panels\<close>\<close>

text \<open>
  Every query appended to a panel after its creation is a dict literal of one shape (written
  over several lines or on one line in the source); \<open>target\<close> is that literal.
\<close>

definition target :: "string \<Rightarrow> string \<Rightarrow> string \<Rightarrow> json" where
  "target expr legend_format ref_id =
    JObj [
    (''datasource'', JObj [
      (''type'', JStr ''prometheus''),
      (''uid'', JStr ''Prometheus'')]),
    (''editorMode'', JStr ''code''),
    (''expr'', JStr expr),
    (''instant'', JBool False),
    (''legendFormat'', JStr legend_format),
    (''range'', JBool True),
    (''refId'', JStr ref_id)]"

text \<open>
  \<^verbatim>\<open>panels[-1]["targets"].extend(ts)\<close>: the list object under \<^verbatim>\<open>targets\<close> of the last panel
  grows in place. \<^verbatim>\<open>panels[-1]["targets"].append(t)\<close> is the case of one element.
\<close>

definition targets_extend :: "json list \<Rightarrow> json list \<Rightarrow> py_exc + json list" where
  "targets_extend panels ts =
     (if panels = [] then Inl IndexError
      else exc_bind (getitem (last panels) ''targets'') (\<lambda>old.
             case old of
               JArr xs \<Rightarrow> exc_bind (setitem (last panels) ''targets'' (JArr (xs @ ts)))
                            (\<lambda>p. Inr (butlast panels @ [p]))
             | _ \<Rightarrow> Inl AttributeError))"

definition targets_append :: "json list \<Rightarrow> json \<Rightarrow> py_exc + json list" where
  "targets_append panels t = targets_extend panels [t]"

definition generate_db_panels :: "py_exc + json list" where
  "generate_db_panels =
    (let panels = [];
         current_y = (17::int);
         panel_id = (200::int);

         panels = panels @ [create_row_panel ''Database Transactions'' current_y panel_id];
         panel_id = panel_id + 1;
         current_y = current_y + 1;

         panels = panels @ [create_timeseries_panel
           ''Transaction Creation Rate''
           ''rate(katana_db_transaction_ro_created[5m])''
           ''Read-Only''
           0 current_y 12 8 panel_id
           ''Rate of database transaction creation (read-only vs read-write)''
           ''reqps'']
     in exc_bind (targets_append panels
           (target ''rate(katana_db_transaction_rw_created[5m])'' ''Read-Write'' ''B'')) (\<lambda>panels.
     let panel_id = panel_id + 1;

         panels = panels @ [create_timeseries_panel
           ''Transaction Commit Status''
           ''rate(katana_db_transaction_commits_successful[5m])''
           ''Successful''
           12 current_y 12 8 panel_id
           ''Rate of successful vs failed transaction commits''
           ''reqps'']
     in exc_bind (targets_append panels
           (target ''rate(katana_db_transaction_commits_failed[5m])'' ''Failed'' ''B'')) (\<lambda>panels.
        exc_bind (targets_append panels
           (target ''rate(katana_db_transaction_aborts[5m])'' ''Aborted'' ''C'')) (\<lambda>panels.
     let panel_id = panel_id + 1;
         current_y = current_y + 8;

         panels = panels @ [create_stat_panel
           ''Total RO Transactions''
           ''katana_db_transaction_ro_created''
           0 current_y 6 4 panel_id
           ''Total number of read-only transactions created''
           ''short'' ''value''];
         panel_id = panel_id + 1;

         panels = panels @ [create_stat_panel
           ''Total RW Transactions''
           ''katana_db_transaction_rw_created''
           6 current_y 6 4 panel_id
           ''Total number of read-write transactions created''
           ''short'' ''value''];
         panel_id = panel_id + 1;

         panels = panels @ [create_stat_panel
           ''Successful Commits''
           ''katana_db_transaction_commits_successful''
           12 current_y 6 4 panel_id
           ''Total number of successful transaction commits''
           ''short'' ''value''];
         panel_id = panel_id + 1;

         panels = panels @ [create_stat_panel
           ''Failed/Aborted''
           ''katana_db_transaction_commits_failed + katana_db_transaction_aborts''
           18 current_y 6 4 panel_id
           ''Total number of failed commits and aborted transactions''
           ''short'' ''value''];
         panel_id = panel_id + 1;
         current_y = current_y + 4;

         panels = panels @ [create_row_panel ''Database Operations'' current_y panel_id];
         panel_id = panel_id + 1;
         current_y = current_y + 1;

         panels = panels @ [create_timeseries_panel
           ''Operation Rate by Type''
           ''rate(katana_db_operation_puts[5m])''
           ''Puts''
           0 current_y 12 8 panel_id
           ''Rate of database operations (get, put, delete, clear)''
           ''reqps'']
     in exc_bind (targets_extend panels [
           target ''rate(katana_db_operation_get_hits[5m]) + rate(katana_db_operation_get_misses[5m])''
             ''Gets (Total)'' ''B'',
           target ''rate(katana_db_operation_deletes_successful[5m]) + rate(katana_db_operation_deletes_failed[5m])''
             ''Deletes (Total)'' ''C'',
           target ''rate(katana_db_operation_clears[5m])'' ''Clears'' ''D'']) (\<lambda>panels.
     let panel_id = panel_id + 1;

         panels = panels @ [create_timeseries_panel
           ''Delete Success Rate''
           ''rate(katana_db_operation_deletes_successful[5m])''
           ''Successful''
           12 current_y 12 8 panel_id
           ''Delete operation success vs failure rate''
           ''reqps'']
     in exc_bind (targets_append panels
           (target ''rate(katana_db_operation_deletes_failed[5m])'' ''Failed'' ''B'')) (\<lambda>panels.
     let panel_id = panel_id + 1;
         current_y = current_y + 8;

         panels = panels @ [create_gauge_panel
           ''Get Cache Hit Rate''
           ''100 * rate(katana_db_operation_get_hits[5m]) / (rate(katana_db_operation_get_hits[5m]) + rate(katana_db_operation_get_misses[5m]))''
           0 current_y 6 6 panel_id
           ''Percentage of get operations that found a value (cache hit rate)''
           100];
         panel_id = panel_id + 1;

         panels = panels @ [create_stat_panel
           ''Total Gets''
           ''katana_db_operation_get_hits + katana_db_operation_get_misses''
           6 current_y 6 3 panel_id
           ''Total number of get operations''
           ''short'' ''value''];
         panel_id = panel_id + 1;

         panels = panels @ [create_stat_panel
           ''Get Hits''
           ''katana_db_operation_get_hits''
           6 (current_y + 3) 3 3 panel_id
           ''Number of successful get operations''
           ''short'' ''background''];
         panel_id = panel_id + 1;

         panels = panels @ [create_stat_panel
           ''Get Misses''
           ''katana_db_operation_get_misses''
           9 (current_y + 3) 3 3 panel_id
           ''Number of get operations that didn't find a value''
           ''short'' ''background''];
         panel_id = panel_id + 1;

         panels = panels @ [create_stat_panel
           ''Total Puts''
           ''katana_db_operation_puts''
           12 current_y 6 3 panel_id
           ''Total number of put operations''
           ''short'' ''value''];
         panel_id = panel_id + 1;

         panels = panels @ [create_stat_panel
           ''Total Deletes''
           ''katana_db_operation_deletes_successful + katana_db_operation_deletes_failed''
           18 current_y 6 3 panel_id
           ''Total number of delete operations''
           ''short'' ''value''];
         panel_id = panel_id + 1;

         panels = panels @ [create_stat_panel
           ''Delete Success''
           ''katana_db_operation_deletes_successful''
           18 (current_y + 3) 3 3 panel_id
           ''Number of successful delete operations''
           ''short'' ''background''];
         panel_id = panel_id + 1;

         panels = panels @ [create_stat_panel
           ''Delete Failures''
           ''katana_db_operation_deletes_failed''
           21 (current_y + 3) 3 3 panel_id
           ''Number of failed delete operations''
           ''short'' ''background''];
         panel_id = panel_id + 1;
         current_y = current_y + 6;

         panels = panels @ [create_row_panel ''Database Performance'' current_y panel_id];
         panel_id = panel_id + 1;
         current_y = current_y + 1;

         panels = panels @ [create_timeseries_panel
           ''Transaction Commit Time (p99)''
           ''histogram_quantile(0.99, rate(katana_db_transaction_commit_time_seconds_bucket[5m]))''
           ''p99''
           0 current_y 12 8 panel_id
           ''99th percentile transaction commit time''
           ''s'']
     in exc_bind (targets_extend panels [
           target ''histogram_quantile(0.95, rate(katana_db_transaction_commit_time_seconds_bucket[5m]))''
             ''p95'' ''B'',
           target ''histogram_quantile(0.50, rate(katana_db_transaction_commit_time_seconds_bucket[5m]))''
             ''p50'' ''C'']) (\<lambda>panels.
     let panel_id = panel_id + 1;

         panels = panels @ [create_timeseries_panel
           ''Get Operation Time (p99)''
           ''histogram_quantile(0.99, rate(katana_db_operation_get_time_seconds_bucket[5m]))''
           ''p99''
           12 current_y 12 8 panel_id
           ''99th percentile get operation time''
           ''s'']
     in exc_bind (targets_extend panels [
           target ''histogram_quantile(0.95, rate(katana_db_operation_get_time_seconds_bucket[5m]))''
             ''p95'' ''B'',
           target ''histogram_quantile(0.50, rate(katana_db_operation_get_time_seconds_bucket[5m]))''
             ''p50'' ''C'']) (\<lambda>panels.
     let panel_id = panel_id + 1;
         current_y = current_y + 8;

         panels = panels @ [create_timeseries_panel
           ''Put Operation Time (p99)''
           ''histogram_quantile(0.99, rate(katana_db_operation_put_time_seconds_bucket[5m]))''
           ''p99''
           0 current_y 12 8 panel_id
           ''99th percentile put operation time''
           ''s'']
     in exc_bind (targets_extend panels [
           target ''histogram_quantile(0.95, rate(katana_db_operation_put_time_seconds_bucket[5m]))''
             ''p95'' ''B'',
           target ''histogram_quantile(0.50, rate(katana_db_operation_put_time_seconds_bucket[5m]))''
             ''p50'' ''C'']) (\<lambda>panels.
     let panel_id = panel_id + 1;

         panels = panels @ [create_timeseries_panel
           ''Delete Operation Time (p99)''
           ''histogram_quantile(0.99, rate(katana_db_operation_delete_time_seconds_bucket[5m]))''
           ''p99''
           12 current_y 12 8 panel_id
           ''99th percentile delete operation time''
           ''s'']
     in exc_bind (targets_extend panels [
           target ''histogram_quantile(0.95, rate(katana_db_operation_delete_time_seconds_bucket[5m]))''
             ''p95'' ''B'',
           target ''histogram_quantile(0.50, rate(katana_db_operation_delete_time_seconds_bucket[5m]))''
             ''p50'' ''C'']) (\<lambda>panels.
     let panel_id = panel_id + 1
     in Inr panels))))))))))"

subsection \<open>Runs\<close>

text \<open>
  What a \<^verbatim>\<open>print\<close> call writes is kept as its pieces: the literal text of the (f-)string and
  the values interpolated into it. One element of \<open>printed\<close> is one call.
\<close>

datatype piece = S string | V json

datatype status = Exit nat | Uncaught py_exc

text \<open>The exit status of the process: an uncaught exception ends Python with status 1.\<close>

fun exit_code :: "status \<Rightarrow> nat" where
  "exit_code (Exit n) = n"
| "exit_code (Uncaught e) = 1"

record run =
  exit_status :: status
  printed :: "piece list list"
  file_after :: json

definition dashboard_path :: string where
  "dashboard_path = ''grafana/dashboards/overview.json''"

text \<open>An exception nobody catches: nothing has been written, the file is as it was.\<close>

definition crashed :: "py_exc \<Rightarrow> piece list list \<Rightarrow> json \<Rightarrow> run" where
  "crashed e out file0 = \<lparr>exit_status = Uncaught e, printed = out, file_after = file0\<rparr>"

text \<open>
  The first loop of both \<^verbatim>\<open>main\<close>s:
  \<^verbatim>\<open>for i, panel in enumerate(dashboard['panels']):
      if panel.get('type') == 'row' and panel.get('title') == title: index = i; break\<close>
  with \<open>i\<close> the index of the head of the list still to visit.
\<close>

fun find_row :: "string \<Rightarrow> json list \<Rightarrow> nat \<Rightarrow> py_exc + nat option" where
  "find_row title [] i = Inr None"
| "find_row title (panel # rest) i =
     exc_bind (dict_get panel ''type'') (\<lambda>ty.
       if ty = JStr ''row''
       then exc_bind (dict_get panel ''title'') (\<lambda>ti.
              if ti = JStr title then Inr (Some i) else find_row title rest (Suc i))
       else find_row title rest (Suc i))"

text \<open>
  The in-memory dashboard after its list of panels was mutated in place. It is used only
  where \<^verbatim>\<open>dashboard['panels']\<close> has been read, so the dashboard is a dict there.
\<close>

fun with_panels :: "json \<Rightarrow> json list \<Rightarrow> json" where
  "with_panels (JObj kv) panels = JObj (AList.update ''panels'' (JArr panels) kv)"
| "with_panels d panels = d"

text \<open>\<^verbatim>\<open>panel['gridPos']['y'] += y_offset\<close>\<close>

definition add_y :: "json \<Rightarrow> int \<Rightarrow> py_exc + json" where
  "add_y panel y_offset =
     exc_bind (getitem panel ''gridPos'') (\<lambda>g.
     exc_bind (getitem g ''y'') (\<lambda>y.
     exc_bind (py_add y y_offset) (\<lambda>y'.
     exc_bind (setitem g ''y'' (JInt y')) (\<lambda>g'.
     setitem panel ''gridPos'' g'))))"

subsubsection \<open>\<^verbatim>\<open>add_db_panels.py\<close>\<close>

text \<open>
  \<^verbatim>\<open>while insert_index < len(panels) and panels[insert_index].get('type') != 'row':
      insert_index += 1\<close>
\<close>

function section_end :: "json list \<Rightarrow> nat \<Rightarrow> py_exc + nat" where
  "section_end panels insert_index =
     (if insert_index < length panels
      then exc_bind (dict_get (panels ! insert_index) ''type'') (\<lambda>ty.
             if ty \<noteq> JStr ''row'' then section_end panels (Suc insert_index)
             else Inr insert_index)
      else Inr insert_index)"
  by pat_completeness auto
termination
  by (relation "measure (\<lambda>(panels, insert_index). length panels - insert_index)") auto

text \<open>The body of the shift loop: \<^verbatim>\<open>if 'gridPos' in panel: panel['gridPos']['y'] += y_offset\<close>\<close>

definition shift_panel_db :: "int \<Rightarrow> json \<Rightarrow> py_exc + json" where
  "shift_panel_db y_offset panel =
     exc_bind (py_in ''gridPos'' panel) (\<lambda>has.
       if has then add_y panel y_offset else Inr panel)"

text \<open>
  \<^verbatim>\<open>main\<close> of the bulk script. When the first loop has found a row, every element it
  visited answered \<^verbatim>\<open>.get\<close>, so \<^verbatim>\<open>dashboard['panels']\<close> is a list and \<open>panels\<close> is that list
  (lemma \<open>find_row_iter_list\<close>).
\<close>

definition add_db_panels_main :: "json \<Rightarrow> run" where
  "add_db_panels_main file0 =
    (let dashboard = file0 in
     case generate_db_panels of
       Inl e \<Rightarrow> crashed e [] file0
     | Inr new_panels \<Rightarrow>
    (case exc_bind (getitem dashboard ''panels'') iter of
       Inl e \<Rightarrow> crashed e [] file0
     | Inr panels \<Rightarrow>
    (case find_row ''Database'' panels 0 of
       Inl e \<Rightarrow> crashed e [] file0
     | Inr None \<Rightarrow>
         \<lparr>exit_status = Exit 1,
          printed = [[S ''Error: Could not find Database row'']],
          file_after = file0\<rparr>
     | Inr (Some db_row_index) \<Rightarrow>
    (case section_end panels (db_row_index + 1) of
       Inl e \<Rightarrow> crashed e [] file0
     | Inr insert_index \<Rightarrow>
    (let y_offset = 40 in
     case for_each (shift_panel_db y_offset) (drop insert_index panels) of
       Inl e \<Rightarrow> crashed e [] file0
     | Inr shifted \<Rightarrow>
         \<lparr>exit_status = Exit 0,
          printed = [
            [S ''Successfully added '', V (JInt (int (length new_panels))),
             S '' database monitoring panels to '', V (JStr dashboard_path)],
            [S (CHR 0x0A # ''New panels include:'')],
            [S ''  - Database Transactions (creation rate, commit status, totals)''],
            [S ''  - Database Operations (operation rates, success rates, cache hit rate)''],
            [S ''  - Database Performance (commit time, get/put/delete operation times)'']],
          file_after =
            with_panels dashboard (take insert_index panels @ new_panels @ shifted)\<rparr>)))))"

subsubsection \<open>\<^verbatim>\<open>add_tx_creation_panel.py\<close>\<close>

text \<open>
  \<^verbatim>\<open>for panel in dashboard['panels']:
      if panel.get('id') == 300: panel_exists = True; print(...); break\<close>
\<close>

fun panel_exists_loop :: "json list \<Rightarrow> py_exc + bool" where
  "panel_exists_loop [] = Inr False"
| "panel_exists_loop (panel # rest) =
     exc_bind (dict_get panel ''id'') (\<lambda>v.
       if v = JInt 300 then Inr True else panel_exists_loop rest)"

text \<open>
  The update loop: the first panel whose id is 300 is replaced, its \<open>y\<close> is read first, the
  replacement is printed and the loop ends. The result is the list and what was printed.
\<close>

fun update_loop :: "json list \<Rightarrow> py_exc + (json list \<times> piece list list)" where
  "update_loop [] = Inr ([], [])"
| "update_loop (panel # rest) =
     exc_bind (dict_get panel ''id'') (\<lambda>v.
       if v = JInt 300
       then exc_bind (getitem panel ''gridPos'') (\<lambda>g.
            exc_bind (getitem g ''y'') (\<lambda>y_pos.
              Inr (create_tx_creation_panel 300 0 y_pos 24 8 # rest,
                   [[S ''Updated existing transaction creation panel at position y='', V y_pos]])))
       else exc_bind (update_loop rest) (\<lambda>(rest', out). Inr (panel # rest', out)))"

text \<open>
  The body of the shift loop:
  \<^verbatim>\<open>if 'gridPos' in panel:
      if panel['gridPos']['y'] >= new_panel_y: panel['gridPos']['y'] += y_offset\<close>
\<close>

definition shift_panel_tx :: "int \<Rightarrow> int \<Rightarrow> json \<Rightarrow> py_exc + json" where
  "shift_panel_tx new_panel_y y_offset panel =
     exc_bind (py_in ''gridPos'' panel) (\<lambda>has.
       if has
       then exc_bind (getitem panel ''gridPos'') (\<lambda>g.
            exc_bind (getitem g ''y'') (\<lambda>y.
            exc_bind (py_ge y new_panel_y) (\<lambda>ge.
              if ge then add_y panel y_offset else Inr panel)))
       else Inr panel)"

definition summary_tx :: "piece list list" where
  "summary_tx = [
     [S (CHR 0x0A # ''Successfully updated ''), V (JStr dashboard_path)],
     [S (CHR 0x0A # ''Panel features:'')],
     [S ''  - Shows when Read-Only (RO) and Read-Write (RW) transactions are created''],
     [S ''  - Displays actual transaction count increase (not rate)''],
     [S ''  - Includes Total transaction creation (dashed line)''],
     [S ''  - Line chart visualization''],
     [S ''  - Legend shows Last, Mean, and Max values''],
     [S ''  - Uses automatic rate interval for accurate counts''],
     [S (CHR 0x0A # ''Restart Grafana to see changes:'')],
     [S ''  docker-compose restart grafana'']]"

definition add_tx_creation_panel_main :: "json \<Rightarrow> run" where
  "add_tx_creation_panel_main file0 =
    (let dashboard = file0 in
     case exc_bind (getitem dashboard ''panels'') iter of
       Inl e \<Rightarrow> crashed e [] file0
     | Inr panels \<Rightarrow>
    (case find_row ''Database Transactions'' panels 0 of
       Inl e \<Rightarrow> crashed e [] file0
     | Inr None \<Rightarrow>
         \<lparr>exit_status = Exit 1,
          printed = [[S ''Error: Could not find 'Database Transactions' row'']],
          file_after = file0\<rparr>
     | Inr (Some db_tx_row_index) \<Rightarrow>
    (case panel_exists_loop panels of
       Inl e \<Rightarrow> crashed e [] file0
     | Inr panel_exists \<Rightarrow>
     if panel_exists then
      (let out = [[S ''Transaction creation panel already exists (ID 300)'']] in
       case update_loop panels of
         Inl e \<Rightarrow> crashed e out file0
       | Inr (panels', out') \<Rightarrow>
           \<lparr>exit_status = Exit 0, printed = out @ out' @ summary_tx,
            file_after = with_panels dashboard panels'\<rparr>)
     else
      (let insert_index = db_tx_row_index + 1 in
       case exc_bind (getitem (panels ! db_tx_row_index) ''gridPos'') (\<lambda>g. getitem g ''y'') of
         Inl e \<Rightarrow> crashed e [] file0
       | Inr row_y \<Rightarrow>
      (case py_add row_y 1 of
         Inl e \<Rightarrow> crashed e [] file0
       | Inr new_panel_y \<Rightarrow>
      (let y_offset = 8 in
       case for_each (shift_panel_tx new_panel_y y_offset) (drop insert_index panels) of
         Inl e \<Rightarrow> crashed e [] file0
       | Inr shifted \<Rightarrow>
          (let new_panel = create_tx_creation_panel 300 0 (JInt new_panel_y) 24 8 in
           \<lparr>exit_status = Exit 0,
            printed =
              [[S ''Added new transaction creation panel at position y='', V (JInt new_panel_y)]]
              @ summary_tx,
            file_after =
              with_panels dashboard (take insert_index panels @ [new_panel] @ shifted)\<rparr>)))))))"

subsection \<open>Observations on documents\<close>

text \<open>
  The vocabulary of the properties below. A panel record is a JSON object; \<open>field k p\<close> is
  the value under key \<open>k\<close> of the object \<open>p\<close>; the panel sequence of a dashboard is the
  array under its key \<^verbatim>\<open>panels\<close>.
\<close>

definition is_panel :: "json \<Rightarrow> bool" where
  "is_panel p = (case p of JObj kv \<Rightarrow> True | _ \<Rightarrow> False)"

definition field :: "string \<Rightarrow> json \<Rightarrow> json option" where
  "field k p = (case p of JObj kv \<Rightarrow> map_of kv k | _ \<Rightarrow> None)"

definition dashboard_panels :: "json \<Rightarrow> json list option" where
  "dashboard_panels d = (case field ''panels'' d of Some (JArr ps) \<Rightarrow> Some ps | _ \<Rightarrow> None)"

definition is_row :: "json \<Rightarrow> bool" where
  "is_row p = (field ''type'' p = Some (JStr ''row''))"

definition is_row_titled :: "string \<Rightarrow> json \<Rightarrow> bool" where
  "is_row_titled t p = (is_row p \<and> field ''title'' p = Some (JStr t))"

text \<open>The identity, the kind and the layout rectangle of a panel, as far as it has them.\<close>

definition summary :: "json \<Rightarrow> json option \<times> json option \<times> json option" where
  "summary p = (field ''id'' p, field ''type'' p, field ''gridPos'' p)"

definition grid :: "int \<Rightarrow> int \<Rightarrow> int \<Rightarrow> int \<Rightarrow> json" where
  "grid h w x y = JObj [(''h'', JInt h), (''w'', JInt w), (''x'', JInt x), (''y'', JInt y)]"

text \<open>
  The layout rectangle: a panel has one when it has the key \<^verbatim>\<open>gridPos\<close>; \<open>panel_y\<close> is the
  number Python computes with for its \<^verbatim>\<open>y\<close> (\<^verbatim>\<open>True\<close> and \<^verbatim>\<open>False\<close> count as 1 and 0).
\<close>

definition has_grid :: "json \<Rightarrow> bool" where
  "has_grid p = (field ''gridPos'' p \<noteq> None)"

fun num :: "json \<Rightarrow> int option" where
  "num (JInt n) = Some n"
| "num (JBool b) = Some (of_bool b)"
| "num v = None"

definition panel_y :: "json \<Rightarrow> int option" where
  "panel_y p = (case field ''gridPos'' p of
                  Some g \<Rightarrow> (case field ''y'' g of Some v \<Rightarrow> num v | None \<Rightarrow> None)
                | None \<Rightarrow> None)"

text \<open>
  The ids of a panel sequence, in order (a panel without the key \<^verbatim>\<open>id\<close> contributes none), the
  height of a panel's rectangle, and the \<open>y\<close> and height read off a \<open>summary\<close>.
\<close>

fun panel_ids :: "json list \<Rightarrow> json list" where
  "panel_ids [] = []"
| "panel_ids (p # ps) = (case field ''id'' p of Some v \<Rightarrow> v # panel_ids ps | None \<Rightarrow> panel_ids ps)"

definition panel_h :: "json \<Rightarrow> int option" where
  "panel_h p = (case field ''gridPos'' p of
                  Some g \<Rightarrow> (case field ''h'' g of Some v \<Rightarrow> num v | None \<Rightarrow> None)
                | None \<Rightarrow> None)"


definition summary_y :: "json option \<times> json option \<times> json option \<Rightarrow> int option" where
  "summary_y s = (case snd (snd s) of
                    Some g \<Rightarrow> (case field ''y'' g of Some v \<Rightarrow> num v | None \<Rightarrow> None)
                  | None \<Rightarrow> None)"

definition summary_h :: "json option \<times> json option \<times> json option \<Rightarrow> int option" where
  "summary_h s = (case snd (snd s) of
                    Some g \<Rightarrow> (case field ''h'' g of Some v \<Rightarrow> num v | None \<Rightarrow> None)
                  | None \<Rightarrow> None)"


text \<open>The keys of a record, in the order \<^verbatim>\<open>json.dump\<close> writes them.\<close>

definition keys :: "json \<Rightarrow> string list" where
  "keys p = (case p of JObj kv \<Rightarrow> map fst kv | _ \<Rightarrow> [])"

text \<open>The singleton panel is recognised by its reserved id.\<close>

definition has300 :: "json \<Rightarrow> bool" where
  "has300 p = (field ''id'' p = Some (JInt 300))"

definition grid_y :: "json \<Rightarrow> json option" where
  "grid_y p = (case field ''gridPos'' p of Some g \<Rightarrow> field ''y'' g | None \<Rightarrow> None)"

text \<open>The list \<^verbatim>\<open>generate_db_panels()\<close> returns (it never raises, lemma \<open>generate_db_panels_eq\<close>).\<close>

definition new_db_panels :: "json list" where
  "new_db_panels = (case generate_db_panels of Inr ps \<Rightarrow> ps | Inl e \<Rightarrow> [])"

text \<open>Sample dashboards, used to run the theorems on concrete documents.\<close>

text \<open>The panel sequence of a document, empty when it has none.\<close>

definition panels_of :: "json \<Rightarrow> json list" where
  "panels_of d = (case dashboard_panels d of Some ps \<Rightarrow> ps | None \<Rightarrow> [])"

definition sample_db_panels :: "json list" where
  "sample_db_panels = [
     JObj [(''id'', JInt 1), (''type'', JStr ''row''), (''title'', JStr ''Database''),
           (''gridPos'', grid 1 24 0 10)],
     JObj [(''id'', JInt 2), (''type'', JStr ''stat''), (''title'', JStr ''Freelist Size''),
           (''gridPos'', grid 4 6 0 11)],
     JObj [(''id'', JInt 3), (''type'', JStr ''text'')],
     JObj [(''id'', JInt 4), (''type'', JStr ''row''), (''title'', JStr ''Network''),
           (''gridPos'', grid 1 24 0 20)],
     JObj [(''id'', JInt 5), (''type'', JStr ''text'')],
     JObj [(''id'', JInt 6), (''type'', JStr ''stat''), (''title'', JStr ''Peers''),
           (''gridPos'', grid 4 6 0 21)]]"

definition sample_db :: json where
  "sample_db = JObj [(''title'', JStr ''Overview''), (''panels'', JArr sample_db_panels)]"

definition sample_tx_300_panels :: "json list" where
  "sample_tx_300_panels = [
     JObj [(''id'', JInt 10), (''type'', JStr ''row''), (''title'', JStr ''Database Transactions''),
           (''gridPos'', grid 1 24 0 4)],
     JObj [(''id'', JInt 300), (''type'', JStr ''timeseries''), (''title'', JStr ''Transaction Creation''),
           (''gridPos'', grid 4 12 12 5), (''targets'', JArr [])],
     JObj [(''id'', JInt 11), (''type'', JStr ''stat''), (''gridPos'', grid 4 6 0 9)]]"

definition sample_tx_300 :: json where
  "sample_tx_300 = JObj [(''title'', JStr ''Overview''), (''panels'', JArr sample_tx_300_panels)]"


definition sample_tx_panels :: "json list" where
  "sample_tx_panels = [
     JObj [(''id'', JInt 10), (''type'', JStr ''row''), (''title'', JStr ''Database Transactions''),
           (''gridPos'', grid 1 24 0 4)],
     JObj [(''id'', JInt 11), (''type'', JStr ''stat''), (''gridPos'', grid 4 6 0 5)],
     JObj [(''id'', JInt 12), (''type'', JStr ''text'')],
     JObj [(''id'', JInt 13), (''type'', JStr ''stat''), (''gridPos'', grid 4 6 0 2)]]"

definition sample_tx :: json where
  "sample_tx = JObj [(''title'', JStr ''Overview''), (''panels'', JArr sample_tx_panels)]"


text \<open>The dashboard of the concrete scenario for the bulk script.\<close>

definition scenario_panels :: "json list" where
  "scenario_panels = [
     JObj [(''id'', JInt 1), (''type'', JStr ''row''), (''title'', JStr ''Database''),
           (''gridPos'', JObj [(''y'', JInt 10)])],
     JObj [(''id'', JInt 2), (''type'', JStr ''stat''), (''gridPos'', JObj [(''y'', JInt 12)])]]"

definition scenario_db :: json where
  "scenario_db = JObj [(''panels'', JArr scenario_panels)]"

section \<open>Properties\<close>

subsection \<open>Basic facts about the Python operations\<close>

lemma exc_bind_simps [simp]:
  "exc_bind (Inl e) f = Inl e" "exc_bind (Inr v) f = f v"
  by (simp_all add: exc_bind_def)

lemma exc_bind_eq_Inr:
  "exc_bind m f = Inr r \<longleftrightarrow> (\<exists>v. m = Inr v \<and> f v = Inr r)"
  by (cases m) simp_all

lemma getitem_Inr: "getitem p k = Inr v \<longleftrightarrow> field k p = Some v"
  by (cases p) (auto simp: field_def split: option.splits)

lemma dict_get_panel:
  "is_panel p \<Longrightarrow> dict_get p k = Inr (case field k p of None \<Rightarrow> JNull | Some v \<Rightarrow> v)"
  by (cases p) (auto simp: field_def is_panel_def)

lemma dict_get_Inr: "dict_get p k = Inr v \<Longrightarrow> is_panel p"
  by (cases p) (auto simp: is_panel_def)

lemma dict_get_eq_JStr:
  "dict_get p k = Inr (JStr s) \<longleftrightarrow> field k p = Some (JStr s)"
  by (cases p) (auto simp: field_def split: option.splits)

lemma dict_get_eq_JInt:
  "dict_get p k = Inr (JInt s) \<longleftrightarrow> field k p = Some (JInt s)"
  by (cases p) (auto simp: field_def split: option.splits)

lemma panels_read:
  "dashboard_panels d = Some ps \<Longrightarrow> exc_bind (getitem d ''panels'') iter = Inr ps"
  by (cases d) (auto simp: dashboard_panels_def field_def split: option.splits json.splits)

subsection \<open>The generated block\<close>

lemma gen_summary:
  "map_sum id (map summary) generate_db_panels = Inr [
    (Some (JInt 200), Some (JStr ''row''), Some (grid 1 24 0 17)),
    (Some (JInt 201), Some (JStr ''timeseries''), Some (grid 8 12 0 18)),
    (Some (JInt 202), Some (JStr ''timeseries''), Some (grid 8 12 12 18)),
    (Some (JInt 203), Some (JStr ''stat''), Some (grid 4 6 0 26)),
    (Some (JInt 204), Some (JStr ''stat''), Some (grid 4 6 6 26)),
    (Some (JInt 205), Some (JStr ''stat''), Some (grid 4 6 12 26)),
    (Some (JInt 206), Some (JStr ''stat''), Some (grid 4 6 18 26)),
    (Some (JInt 207), Some (JStr ''row''), Some (grid 1 24 0 30)),
    (Some (JInt 208), Some (JStr ''timeseries''), Some (grid 8 12 0 31)),
    (Some (JInt 209), Some (JStr ''timeseries''), Some (grid 8 12 12 31)),
    (Some (JInt 210), Some (JStr ''gauge''), Some (grid 6 6 0 39)),
    (Some (JInt 211), Some (JStr ''stat''), Some (grid 3 6 6 39)),
    (Some (JInt 212), Some (JStr ''stat''), Some (grid 3 3 6 42)),
    (Some (JInt 213), Some (JStr ''stat''), Some (grid 3 3 9 42)),
    (Some (JInt 214), Some (JStr ''stat''), Some (grid 3 6 12 39)),
    (Some (JInt 215), Some (JStr ''stat''), Some (grid 3 6 18 39)),
    (Some (JInt 216), Some (JStr ''stat''), Some (grid 3 3 18 42)),
    (Some (JInt 217), Some (JStr ''stat''), Some (grid 3 3 21 42)),
    (Some (JInt 218), Some (JStr ''row''), Some (grid 1 24 0 45)),
    (Some (JInt 219), Some (JStr ''timeseries''), Some (grid 8 12 0 46)),
    (Some (JInt 220), Some (JStr ''timeseries''), Some (grid 8 12 12 46)),
    (Some (JInt 221), Some (JStr ''timeseries''), Some (grid 8 12 0 54)),
    (Some (JInt 222), Some (JStr ''timeseries''), Some (grid 8 12 12 54))]"
  by code_simp

lemma generate_db_panels_eq: "generate_db_panels = Inr new_db_panels"
proof (cases generate_db_panels)
  case (Inl e)
  show ?thesis using gen_summary by (simp add: Inl)
next
  case (Inr ps)
  show ?thesis unfolding new_db_panels_def Inr by simp
qed

subsection \<open>The anchor search\<close>

declare find_row.simps(2) [simp del]

lemma find_row_step:
  "is_panel p \<Longrightarrow>
   find_row t (p # ps) i = (if is_row_titled t p then Inr (Some i) else find_row t ps (Suc i))"
  by (cases p)
     (auto simp: find_row.simps(2) is_panel_def is_row_titled_def is_row_def field_def
           split: option.splits)

lemma find_row_none:
  "list_all is_panel ps \<Longrightarrow> \<not> (\<exists>p\<in>set ps. is_row_titled t p) \<Longrightarrow> find_row t ps i = Inr None"
  by (induction ps arbitrary: i) (simp_all add: find_row_step)

lemma find_row_found:
  "find_row t ps i = Inr (Some k) \<Longrightarrow>
     i \<le> k \<and> k - i < length ps \<and> is_row_titled t (ps ! (k - i))
     \<and> (\<forall>j < k - i. is_panel (ps ! j) \<and> \<not> is_row_titled t (ps ! j))"
proof (induction ps arbitrary: i)
  case Nil
  then show ?case by simp
next
  case (Cons p ps)
  have pan: "is_panel p"
    using Cons.prems by (cases p) (auto simp: find_row.simps(2) is_panel_def)
  show ?case
  proof (cases "is_row_titled t p")
    case True
    with Cons.prems pan show ?thesis by (simp add: find_row_step)
  next
    case False
    with Cons.prems pan have rec: "find_row t ps (Suc i) = Inr (Some k)"
      by (simp add: find_row_step)
    from Cons.IH[OF rec] have ih: "Suc i \<le> k" "k - Suc i < length ps"
      "is_row_titled t (ps ! (k - Suc i))"
      "\<forall>j < k - Suc i. is_panel (ps ! j) \<and> \<not> is_row_titled t (ps ! j)" by auto
    have eq: "k - i = Suc (k - Suc i)" using ih(1) by arith
    show ?thesis
      using ih pan False by (auto simp: eq nth_Cons split: nat.splits)
  qed
qed

lemma find_row_first:
  "find_row t ps 0 = Inr (Some k) \<Longrightarrow>
     k < length ps \<and> is_row_titled t (ps ! k)
     \<and> (\<forall>j < k. is_panel (ps ! j) \<and> \<not> is_row_titled t (ps ! j))"
  using find_row_found[of t ps 0 k] by simp

lemma find_row_at:
  "\<forall>p\<in>set xs. is_panel p \<and> \<not> is_row_titled t p \<Longrightarrow> is_panel p \<Longrightarrow> is_row_titled t p \<Longrightarrow>
   find_row t (xs @ p # ys) i = Inr (Some (i + length xs))"
  by (induction xs arbitrary: i) (simp_all add: find_row_step)

lemma find_row_nonpanel: "\<not> is_panel p \<Longrightarrow> find_row t (p # ps) i = Inl AttributeError"
  by (cases p) (simp_all add: find_row.simps(2) is_panel_def)

lemma find_row_iter_list:
  "iter pv = Inr items \<Longrightarrow> find_row t items i = Inr (Some k) \<Longrightarrow> pv = JArr items"
proof (cases pv)
  case (JObj kv)
  assume "iter pv = Inr items" "find_row t items i = Inr (Some k)"
  then show ?thesis using JObj
    by (cases kv) (auto simp: find_row_nonpanel is_panel_def)
next
  case (JStr s)
  assume "iter pv = Inr items" "find_row t items i = Inr (Some k)"
  then show ?thesis using JStr
    by (cases s) (auto simp: find_row_nonpanel is_panel_def)
qed auto

lemma panels_read_found:
  assumes "exc_bind (getitem d ''panels'') iter = Inr ps" "find_row t ps i = Inr (Some k)"
  shows "dashboard_panels d = Some ps"
proof -
  from assms(1) obtain pv where pv: "getitem d ''panels'' = Inr pv" "iter pv = Inr ps"
    by (auto simp: exc_bind_eq_Inr)
  from find_row_iter_list[OF pv(2) assms(2)] pv(1) show ?thesis
    by (simp add: getitem_Inr dashboard_panels_def)
qed


subsection \<open>The end of the section and the shift loops\<close>

lemma is_row_panel: "is_row p \<Longrightarrow> is_panel p"
  by (cases p) (auto simp: is_row_def field_def is_panel_def)

lemma dict_get_type_row:
  "is_panel p \<Longrightarrow> dict_get p ''type'' = Inr ty \<Longrightarrow> (ty = JStr ''row'') = is_row p"
  by (cases p) (auto simp: is_panel_def is_row_def field_def split: option.splits)

declare section_end.simps [simp del]

lemma section_end_spec:
  "section_end ps i = Inr k \<Longrightarrow>
     i \<le> k \<and> (i \<le> length ps \<longrightarrow> k \<le> length ps)
     \<and> (\<forall>j. i \<le> j \<and> j < k \<longrightarrow> is_panel (ps ! j) \<and> \<not> is_row (ps ! j))
     \<and> (k < length ps \<longrightarrow> is_row (ps ! k))"
proof (induction ps i rule: section_end.induct)
  case (1 ps i)
  show ?case
  proof (cases "i < length ps")
    case False
    with "1.prems" show ?thesis by (auto simp: section_end.simps[of ps i])
  next
    case True
    from "1.prems" True obtain ty where ty: "dict_get (ps ! i) ''type'' = Inr ty"
      by (cases "dict_get (ps ! i) ''type''") (auto simp: section_end.simps[of ps i])
    have pan: "is_panel (ps ! i)" using ty by (rule dict_get_Inr)
    show ?thesis
    proof (cases "ty = JStr ''row''")
      case row: True
      with "1.prems" True ty have "k = i" by (simp add: section_end.simps[of ps i])
      with row True pan ty show ?thesis using dict_get_type_row[OF pan ty] by auto
    next
      case norow: False
      with "1.prems" True ty have rec: "section_end ps (Suc i) = Inr k"
        by (simp add: section_end.simps[of ps i])
      from "1.IH"[OF True norow rec] True
      have ih: "Suc i \<le> k" "k \<le> length ps"
        "\<forall>j. Suc i \<le> j \<and> j < k \<longrightarrow> is_panel (ps ! j) \<and> \<not> is_row (ps ! j)"
        "k < length ps \<longrightarrow> is_row (ps ! k)" by auto
      have here: "\<not> is_row (ps ! i)" using dict_get_type_row[OF pan ty] norow by simp
      have "\<forall>j. i \<le> j \<and> j < k \<longrightarrow> is_panel (ps ! j) \<and> \<not> is_row (ps ! j)"
      proof (intro allI impI)
        fix j assume "i \<le> j \<and> j < k"
        then consider "j = i" | "Suc i \<le> j \<and> j < k" by linarith
        then show "is_panel (ps ! j) \<and> \<not> is_row (ps ! j)"
          using pan here ih(3) by cases auto
      qed
      with ih show ?thesis by auto
    qed
  qed
qed

lemma section_end_total:
  "list_all is_panel ps \<Longrightarrow> \<exists>k. section_end ps i = Inr k"
proof (induction ps i rule: section_end.induct)
  case (1 ps i)
  show ?case
  proof (cases "i < length ps")
    case False
    then show ?thesis by (simp add: section_end.simps[of ps i])
  next
    case True
    then have pan: "is_panel (ps ! i)" using "1.prems" by (simp add: list_all_length)
    show ?thesis
    proof (cases "is_row (ps ! i)")
      case row: True
      then show ?thesis using True pan
        by (simp add: section_end.simps[of ps i] dict_get_panel is_row_def)
    next
      case norow: False
      have ty: "dict_get (ps ! i) ''type'' = Inr (case field ''type'' (ps ! i) of None \<Rightarrow> JNull | Some v \<Rightarrow> v)"
        using pan by (rule dict_get_panel)
      have ne: "(case field ''type'' (ps ! i) of None \<Rightarrow> JNull | Some v \<Rightarrow> v) \<noteq> JStr ''row''"
        using norow by (auto simp: is_row_def split: option.splits)
      from "1.IH"[OF True ne "1.prems"] show ?thesis
        using True ty ne by (simp add: section_end.simps[of ps i])
    qed
  qed
qed

lemma for_each_Inr:
  "for_each f ps = Inr qs \<longleftrightarrow> length qs = length ps \<and> (\<forall>j < length ps. f (ps ! j) = Inr (qs ! j))"
proof (induction ps arbitrary: qs)
  case Nil
  then show ?case by auto
next
  case (Cons p ps)
  show ?case
  proof (cases qs)
    case Nil
    then show ?thesis by (auto simp: exc_bind_eq_Inr)
  next
    case (Cons q qs')
    then show ?thesis
      using Cons.IH[of qs']
      by (auto simp: exc_bind_eq_Inr nth_Cons split: nat.splits) 
  qed
qed

lemma for_each_append:
  "for_each f (xs @ ys) =
     exc_bind (for_each f xs) (\<lambda>xs'. exc_bind (for_each f ys) (\<lambda>ys'. Inr (xs' @ ys')))"
proof (induction xs)
  case Nil
  show ?case by (cases "for_each f ys") simp_all
next
  case (Cons x xs)
  show ?case
    by (cases "f x"; cases "for_each f xs"; cases "for_each f ys") (simp_all add: Cons)
qed


lemma has_grid_panel: "has_grid p \<Longrightarrow> is_panel p"
  by (cases p) (auto simp: has_grid_def field_def is_panel_def)

lemma py_in_panel: "is_panel p \<Longrightarrow> py_in k p = Inr (field k p \<noteq> None)"
  by (cases p) (auto simp: is_panel_def field_def map_of_eq_None_iff)

lemma py_add_Inr: "py_add y c = Inr v' \<longleftrightarrow> (\<exists>v. num y = Some v \<and> v' = v + c)"
  by (cases y) auto

lemma py_ge_Inr: "py_ge y n = Inr b \<longleftrightarrow> (\<exists>v. num y = Some v \<and> b = (v \<ge> n))"
  by (cases y) auto

lemma field_setitem:
  "setitem p k v = Inr q \<Longrightarrow> field k' q = (if k' = k then Some v else field k' p)"
  by (cases p) (auto simp: field_def update_conv')

lemma setitem_panel: "setitem p k v = Inr q \<Longrightarrow> is_panel q"
  by (cases p) (auto simp: is_panel_def)

lemma add_y_Inr:
  assumes "add_y p c = Inr q"
  shows "\<exists>v. panel_y p = Some v \<and> panel_y q = Some (v + c)"
    and "k \<noteq> ''gridPos'' \<Longrightarrow> field k q = field k p"
    and "is_panel q" and "has_grid q"
proof -
  from assms obtain g y v' g' where
    g: "getitem p ''gridPos'' = Inr g" and y: "getitem g ''y'' = Inr y"
    and v': "py_add y c = Inr v'" and g': "setitem g ''y'' (JInt v') = Inr g'"
    and q: "setitem p ''gridPos'' g' = Inr q"
    unfolding add_y_def by (auto simp: exc_bind_eq_Inr)
  from v' obtain v where v: "num y = Some v" "v' = v + c" by (auto simp: py_add_Inr)
  have "panel_y p = Some v" using g y v by (simp add: panel_y_def getitem_Inr)
  moreover have "panel_y q = Some (v + c)"
    using field_setitem[OF q, of "''gridPos''"] field_setitem[OF g', of "''y''"] v
    by (simp add: panel_y_def)
  ultimately show "\<exists>v. panel_y p = Some v \<and> panel_y q = Some (v + c)" by blast
  show "k \<noteq> ''gridPos'' \<Longrightarrow> field k q = field k p" using field_setitem[OF q, of k] by simp
  show "is_panel q" using q by (rule setitem_panel)
  show "has_grid q" using field_setitem[OF q, of "''gridPos''"] by (simp add: has_grid_def)
qed

lemma shift_db_nogrid: "is_panel p \<Longrightarrow> \<not> has_grid p \<Longrightarrow> shift_panel_db c p = Inr p"
  by (simp add: shift_panel_db_def py_in_panel has_grid_def)

lemma shift_db_grid: "has_grid p \<Longrightarrow> shift_panel_db c p = add_y p c"
  using has_grid_panel[of p] by (simp add: shift_panel_db_def py_in_panel has_grid_def)

lemma add_y_nonpanel: "\<not> is_panel p \<Longrightarrow> add_y p c = Inl TypeError"
  by (cases p) (simp_all add: add_y_def is_panel_def)

lemma shift_db_nonpanel: "\<not> is_panel p \<Longrightarrow> shift_panel_db c p = Inr q \<Longrightarrow> q = p"
  by (cases p) (auto simp: shift_panel_db_def is_panel_def add_y_nonpanel split: if_splits)

lemma shift_db_field:
  assumes "shift_panel_db c p = Inr q" "k \<noteq> ''gridPos''"
  shows "field k q = field k p"
proof (cases "is_panel p")
  case False
  with assms show ?thesis by (auto dest: shift_db_nonpanel)
next
  case True
  show ?thesis
  proof (cases "has_grid p")
    case True
    with assms show ?thesis by (auto simp: shift_db_grid dest: add_y_Inr(2))
  next
    case False
    with assms \<open>is_panel p\<close> show ?thesis by (simp add: shift_db_nogrid)
  qed
qed

lemma shift_db_y:
  "has_grid p \<Longrightarrow> shift_panel_db c p = Inr q \<Longrightarrow> \<exists>v. panel_y p = Some v \<and> panel_y q = Some (v + c)"
  by (auto simp: shift_db_grid dest: add_y_Inr(1))

lemma shift_tx_nogrid: "is_panel p \<Longrightarrow> \<not> has_grid p \<Longrightarrow> shift_panel_tx ny c p = Inr p"
  by (simp add: shift_panel_tx_def py_in_panel has_grid_def)

lemma shift_tx_grid:
  assumes "has_grid p" "shift_panel_tx ny c p = Inr q"
  shows "\<exists>v. panel_y p = Some v \<and> (if v \<ge> ny then add_y p c = Inr q else q = p)"
proof -
  have pan: "is_panel p" using assms(1) by (rule has_grid_panel)
  from assms pan obtain g y b where
    g: "getitem p ''gridPos'' = Inr g" and y: "getitem g ''y'' = Inr y"
    and b: "py_ge y ny = Inr b" and r: "(if b then add_y p c else Inr p) = Inr q"
    unfolding shift_panel_tx_def by (auto simp: exc_bind_eq_Inr py_in_panel has_grid_def)
  from b obtain v where v: "num y = Some v" "b = (v \<ge> ny)" by (auto simp: py_ge_Inr)
  have "panel_y p = Some v" using g y v by (simp add: panel_y_def getitem_Inr)
  with r v show ?thesis by (auto split: if_splits)
qed

lemma shift_tx_nonpanel: "\<not> is_panel p \<Longrightarrow> shift_panel_tx ny c p = Inr q \<Longrightarrow> q = p"
  by (cases p) (auto simp: shift_panel_tx_def is_panel_def split: if_splits)

lemma shift_tx_field:
  assumes "shift_panel_tx ny c p = Inr q" "k \<noteq> ''gridPos''"
  shows "field k q = field k p"
proof (cases "is_panel p")
  case False
  with assms show ?thesis by (auto dest: shift_tx_nonpanel)
next
  case True
  show ?thesis
  proof (cases "has_grid p")
    case True
    from shift_tx_grid[OF True assms(1)] assms(2) show ?thesis
      by (auto split: if_splits dest: add_y_Inr(2))
  next
    case False
    with assms \<open>is_panel p\<close> show ?thesis by (simp add: shift_tx_nogrid)
  qed
qed


subsection \<open>The shape of a run of the bulk script\<close>

lemma dashboard_with_panels:
  "dashboard_panels d = Some ps \<Longrightarrow> dashboard_panels (with_panels d ps') = Some ps'"
  by (cases d) (auto simp: dashboard_panels_def field_def update_conv' split: option.splits json.splits)

lemma with_panels_twice:
  "with_panels (with_panels d ps) ps' = with_panels d ps'"
  by (cases d) simp_all

lemma with_panels_same:
  "dashboard_panels d = Some ps \<Longrightarrow> with_panels d ps = d"
  by (cases d) (auto simp: dashboard_panels_def field_def update_triv split: option.splits json.splits)

lemma main_db_found:
  assumes "dashboard_panels d = Some ps" "find_row ''Database'' ps 0 = Inr (Some i)"
    "section_end ps (Suc i) = Inr k"
  shows "add_db_panels_main d =
     (case for_each (shift_panel_db 40) (drop k ps) of
        Inl e \<Rightarrow> crashed e [] d
      | Inr shifted \<Rightarrow>
         \<lparr>exit_status = Exit 0,
          printed = [
            [S ''Successfully added '', V (JInt (int (length new_db_panels))),
             S '' database monitoring panels to '', V (JStr dashboard_path)],
            [S (CHR 0x0A # ''New panels include:'')],
            [S ''  - Database Transactions (creation rate, commit status, totals)''],
            [S ''  - Database Operations (operation rates, success rates, cache hit rate)''],
            [S ''  - Database Performance (commit time, get/put/delete operation times)'']],
          file_after = with_panels d (take k ps @ new_db_panels @ shifted)\<rparr>)"
  using assms
  by (simp add: add_db_panels_main_def generate_db_panels_eq panels_read)

lemma main_db_success:
  assumes "exit_status (add_db_panels_main d) = Exit 0"
  shows "\<exists>ps i k sh. dashboard_panels d = Some ps \<and> find_row ''Database'' ps 0 = Inr (Some i)
     \<and> section_end ps (Suc i) = Inr k \<and> for_each (shift_panel_db 40) (drop k ps) = Inr sh
     \<and> file_after (add_db_panels_main d) = with_panels d (take k ps @ new_db_panels @ sh)"
proof -
  from assms obtain ps where ps: "exc_bind (getitem d ''panels'') iter = Inr ps"
    by (cases "exc_bind (getitem d ''panels'') iter")
       (auto simp: add_db_panels_main_def generate_db_panels_eq crashed_def)
  with assms obtain i where i: "find_row ''Database'' ps 0 = Inr (Some i)"
    by (cases "find_row ''Database'' ps 0")
       (auto simp: add_db_panels_main_def generate_db_panels_eq crashed_def split: option.splits)
  have dp: "dashboard_panels d = Some ps" using ps i by (rule panels_read_found)
  from assms ps i obtain k where k: "section_end ps (Suc i) = Inr k"
    by (cases "section_end ps (Suc i)")
       (auto simp: add_db_panels_main_def generate_db_panels_eq crashed_def)
  from assms obtain sh where sh: "for_each (shift_panel_db 40) (drop k ps) = Inr sh"
    by (cases "for_each (shift_panel_db 40) (drop k ps)")
       (auto simp: main_db_found[OF dp i k] crashed_def)
  show ?thesis using dp i k sh by (auto simp: main_db_found[OF dp i k])
qed

lemma main_db_unchanged:
  "exit_status (add_db_panels_main d) \<noteq> Exit 0 \<Longrightarrow> file_after (add_db_panels_main d) = d"
  by (auto simp: add_db_panels_main_def generate_db_panels_eq crashed_def
           split: sum.splits option.splits)

subsection \<open>Abort when the anchor row is missing\<close>

text \<open>
  C3. A dashboard is a document whose \<^verbatim>\<open>panels\<close> is an array of panel records. If none of
  them is a row titled \<^verbatim>\<open>Database\<close>, the bulk script prints its diagnostic line, exits with
  status 1 and leaves the file as it was; the singleton script does the same when no row is
  titled \<^verbatim>\<open>Database Transactions\<close>.
\<close>

theorem anchor_missing_abort:
  "(dashboard_panels d = Some ps \<and> list_all is_panel ps
      \<and> \<not> (\<exists>p\<in>set ps. is_row_titled ''Database'' p)
     \<longrightarrow> add_db_panels_main d =
          \<lparr>exit_status = Exit 1,
           printed = [[S ''Error: Could not find Database row'']],
           file_after = d\<rparr>)
   \<and> (dashboard_panels d = Some ps \<and> list_all is_panel ps
      \<and> \<not> (\<exists>p\<in>set ps. is_row_titled ''Database Transactions'' p)
     \<longrightarrow> add_tx_creation_panel_main d =
          \<lparr>exit_status = Exit 1,
           printed = [[S ''Error: Could not find 'Database Transactions' row'']],
           file_after = d\<rparr>)"
  by (simp add: add_db_panels_main_def add_tx_creation_panel_main_def generate_db_panels_eq
        panels_read find_row_none)

theorem anchor_missing_abort_witness:
  "dashboard_panels (JObj [(''panels'', JArr [JObj [(''id'', JInt 1), (''type'', JStr ''stat'')]])])
     = Some [JObj [(''id'', JInt 1), (''type'', JStr ''stat'')]]
   \<and> list_all is_panel [JObj [(''id'', JInt 1), (''type'', JStr ''stat'')]]
   \<and> \<not> (\<exists>p\<in>set [JObj [(''id'', JInt 1), (''type'', JStr ''stat'')]]. is_row_titled ''Database'' p)
   \<and> \<not> (\<exists>p\<in>set [JObj [(''id'', JInt 1), (''type'', JStr ''stat'')]].
           is_row_titled ''Database Transactions'' p)
   \<and> exit_code (exit_status (add_db_panels_main
         (JObj [(''panels'', JArr [JObj [(''id'', JInt 1), (''type'', JStr ''stat'')]])]))) = 1
   \<and> file_after (add_db_panels_main
         (JObj [(''panels'', JArr [JObj [(''id'', JInt 1), (''type'', JStr ''stat'')]])]))
       = JObj [(''panels'', JArr [JObj [(''id'', JInt 1), (''type'', JStr ''stat'')]])]
   \<and> exit_code (exit_status (add_tx_creation_panel_main
         (JObj [(''panels'', JArr [JObj [(''id'', JInt 1), (''type'', JStr ''stat'')]])]))) = 1
   \<and> file_after (add_tx_creation_panel_main
         (JObj [(''panels'', JArr [JObj [(''id'', JInt 1), (''type'', JStr ''stat'')]])]))
       = JObj [(''panels'', JArr [JObj [(''id'', JInt 1), (''type'', JStr ''stat'')]])]"
  using anchor_missing_abort
    [of "JObj [(''panels'', JArr [JObj [(''id'', JInt 1), (''type'', JStr ''stat'')]])]"
        "[JObj [(''id'', JInt 1), (''type'', JStr ''stat'')]]"]
  by (simp add: dashboard_panels_def field_def is_panel_def is_row_titled_def is_row_def)

subsection \<open>The shape of a run of the singleton script\<close>

lemma panel_y_grid_y: "panel_y p = (case grid_y p of Some v \<Rightarrow> num v | None \<Rightarrow> None)"
  by (simp add: panel_y_def grid_y_def split: option.splits)

lemma grid_y_getitem:
  "exc_bind (getitem p ''gridPos'') (\<lambda>g. getitem g ''y'') = Inr y \<longleftrightarrow> grid_y p = Some y"
  by (auto simp: exc_bind_eq_Inr getitem_Inr grid_y_def split: option.splits)

lemma has300_panel: "has300 p \<Longrightarrow> is_panel p"
  by (cases p) (auto simp: has300_def field_def is_panel_def)

lemma dict_get_id: "is_panel p \<Longrightarrow> dict_get p ''id'' = Inr v \<Longrightarrow> (v = JInt 300) = has300 p"
  by (cases p) (auto simp: is_panel_def has300_def field_def split: option.splits)

lemma exists_step:
  "is_panel p \<Longrightarrow> panel_exists_loop (p # ps) = (if has300 p then Inr True else panel_exists_loop ps)"
  by (cases p) (auto simp: is_panel_def has300_def field_def split: option.splits)

lemma exists_nonpanel: "\<not> is_panel p \<Longrightarrow> panel_exists_loop (p # ps) = Inl AttributeError"
  by (cases p) (simp_all add: is_panel_def)

declare panel_exists_loop.simps(2) [simp del]

lemma exists_False:
  "panel_exists_loop ps = Inr False \<longleftrightarrow> (\<forall>p\<in>set ps. is_panel p \<and> \<not> has300 p)"
proof (induction ps)
  case Nil
  show ?case by simp
next
  case (Cons p ps)
  show ?case
    by (cases "is_panel p") (auto simp: exists_step exists_nonpanel Cons)
qed

lemma exists_True_split:
  "panel_exists_loop ps = Inr True \<Longrightarrow>
     \<exists>xs p ys. ps = xs @ p # ys \<and> (\<forall>q\<in>set xs. is_panel q \<and> \<not> has300 q) \<and> has300 p"
proof (induction ps)
  case Nil
  then show ?case by simp
next
  case (Cons a ps)
  have pan: "is_panel a" using Cons.prems by (cases "is_panel a") (auto simp: exists_nonpanel)
  show ?case
  proof (cases "has300 a")
    case True
    then have "a # ps = [] @ a # ps \<and> (\<forall>q\<in>set []. is_panel q \<and> \<not> has300 q) \<and> has300 a" by simp
    then show ?thesis by blast
  next
    case False
    with Cons.prems pan have "panel_exists_loop ps = Inr True" by (simp add: exists_step)
    from Cons.IH[OF this] obtain xs p ys where
      "ps = xs @ p # ys" "\<forall>q\<in>set xs. is_panel q \<and> \<not> has300 q" "has300 p" by blast
    with pan False have "a # ps = (a # xs) @ p # ys \<and> (\<forall>q\<in>set (a # xs). is_panel q \<and> \<not> has300 q) \<and> has300 p"
      by simp
    then show ?thesis by blast
  qed
qed

lemma exists_True_at:
  "(\<forall>q\<in>set xs. is_panel q \<and> \<not> has300 q) \<Longrightarrow> has300 p \<Longrightarrow> panel_exists_loop (xs @ p # ys) = Inr True"
  by (induction xs) (simp_all add: exists_step has300_panel)

declare update_loop.simps(2) [simp del]

lemma update_step_hit:
  "has300 p \<Longrightarrow> update_loop (p # ps) =
     exc_bind (exc_bind (getitem p ''gridPos'') (\<lambda>g. getitem g ''y'')) (\<lambda>y_pos.
       Inr (create_tx_creation_panel 300 0 y_pos 24 8 # ps,
            [[S ''Updated existing transaction creation panel at position y='', V y_pos]]))"
  by (cases p; cases "getitem p ''gridPos''")
     (auto simp: update_loop.simps(2) has300_def field_def split: option.splits)

lemma update_step_miss:
  "is_panel p \<Longrightarrow> \<not> has300 p \<Longrightarrow> update_loop (p # ps) =
     exc_bind (update_loop ps) (\<lambda>(rest', out). Inr (p # rest', out))"
  by (cases p) (auto simp: update_loop.simps(2) is_panel_def has300_def field_def split: option.splits)

lemma update_at:
  "(\<forall>q\<in>set xs. is_panel q \<and> \<not> has300 q) \<Longrightarrow> has300 p \<Longrightarrow>
   update_loop (xs @ p # ys) =
     (case grid_y p of
        None \<Rightarrow> Inl (case exc_bind (getitem p ''gridPos'') (\<lambda>g. getitem g ''y'') of Inl e \<Rightarrow> e | Inr v \<Rightarrow> KeyError)
      | Some y_pos \<Rightarrow>
         Inr (xs @ create_tx_creation_panel 300 0 y_pos 24 8 # ys,
              [[S ''Updated existing transaction creation panel at position y='', V y_pos]]))"
proof (induction xs)
  case Nil
  show ?case
  proof (cases "exc_bind (getitem p ''gridPos'') (\<lambda>g. getitem g ''y'')")
    case (Inl e)
    then have "grid_y p = None" using grid_y_getitem[of p] by (cases "grid_y p") auto
    with Inl Nil show ?thesis by (simp add: update_step_hit)
  next
    case (Inr y)
    then have "grid_y p = Some y" by (simp add: grid_y_getitem)
    with Inr Nil show ?thesis by (simp add: update_step_hit)
  qed
next
  case (Cons a xs)
  then show ?case by (simp add: update_step_miss split: option.splits)
qed


lemma create_tx_fields:
  "field ''id'' (create_tx_creation_panel i x y w h) = Some (JInt i)"
  "field ''gridPos'' (create_tx_creation_panel i x y w h) =
     Some (JObj [(''h'', JInt h), (''w'', JInt w), (''x'', JInt x), (''y'', y)])"
  "field ''type'' (create_tx_creation_panel i x y w h) = Some (JStr ''timeseries'')"
  "field ''title'' (create_tx_creation_panel i x y w h) = Some (JStr ''Transaction Creation'')"
  "is_panel (create_tx_creation_panel i x y w h)"
  by (simp_all add: create_tx_creation_panel_def field_def is_panel_def)

lemma create_tx_grid_y: "grid_y (create_tx_creation_panel i x y w h) = Some y"
  unfolding grid_y_def create_tx_fields(2) by (simp add: field_def)

lemma create_tx_has300: "has300 (create_tx_creation_panel 300 x y w h)"
  by (simp add: has300_def create_tx_fields)

lemma main_tx_update:
  assumes "dashboard_panels d = Some ps" "find_row ''Database Transactions'' ps 0 = Inr (Some i)"
    "panel_exists_loop ps = Inr True"
  shows "add_tx_creation_panel_main d =
     (case update_loop ps of
        Inl e \<Rightarrow> crashed e [[S ''Transaction creation panel already exists (ID 300)'']] d
      | Inr (ps', out') \<Rightarrow>
          \<lparr>exit_status = Exit 0,
           printed = [[S ''Transaction creation panel already exists (ID 300)'']] @ out' @ summary_tx,
           file_after = with_panels d ps'\<rparr>)"
  using assms
  by (simp add: add_tx_creation_panel_main_def panels_read Let_def split: sum.splits prod.splits)

lemma main_tx_insert:
  assumes "dashboard_panels d = Some ps" "find_row ''Database Transactions'' ps 0 = Inr (Some i)"
    "panel_exists_loop ps = Inr False"
  shows "add_tx_creation_panel_main d =
     (case exc_bind (getitem (ps ! i) ''gridPos'') (\<lambda>g. getitem g ''y'') of
        Inl e \<Rightarrow> crashed e [] d
      | Inr row_y \<Rightarrow>
     (case py_add row_y 1 of
        Inl e \<Rightarrow> crashed e [] d
      | Inr new_panel_y \<Rightarrow>
     (case for_each (shift_panel_tx new_panel_y 8) (drop (Suc i) ps) of
        Inl e \<Rightarrow> crashed e [] d
      | Inr shifted \<Rightarrow>
          \<lparr>exit_status = Exit 0,
           printed =
             [[S ''Added new transaction creation panel at position y='', V (JInt new_panel_y)]]
             @ summary_tx,
           file_after = with_panels d
             (take (Suc i) ps @ [create_tx_creation_panel 300 0 (JInt new_panel_y) 24 8] @ shifted)\<rparr>)))"
  using assms
  by (simp add: add_tx_creation_panel_main_def panels_read Let_def split: sum.splits prod.splits)

lemma main_tx_unchanged:
  "exit_status (add_tx_creation_panel_main d) \<noteq> Exit 0 \<Longrightarrow>
   file_after (add_tx_creation_panel_main d) = d"
  by (auto simp: add_tx_creation_panel_main_def crashed_def Let_def
           split: sum.splits option.splits if_splits prod.splits)

lemma main_tx_success:
  assumes "exit_status (add_tx_creation_panel_main d) = Exit 0"
  shows "\<exists>ps i. dashboard_panels d = Some ps
      \<and> find_row ''Database Transactions'' ps 0 = Inr (Some i)
      \<and> (panel_exists_loop ps = Inr True \<or> panel_exists_loop ps = Inr False)"
proof -
  from assms obtain ps where ps: "exc_bind (getitem d ''panels'') iter = Inr ps"
    by (cases "exc_bind (getitem d ''panels'') iter")
       (auto simp: add_tx_creation_panel_main_def crashed_def)
  with assms obtain i where i: "find_row ''Database Transactions'' ps 0 = Inr (Some i)"
    by (cases "find_row ''Database Transactions'' ps 0")
       (auto simp: add_tx_creation_panel_main_def crashed_def split: option.splits)
  have dp: "dashboard_panels d = Some ps" using ps i by (rule panels_read_found)
  from assms ps i obtain b where "panel_exists_loop ps = Inr b"
    by (cases "panel_exists_loop ps")
       (auto simp: add_tx_creation_panel_main_def crashed_def)
  then show ?thesis using dp i by (cases b) auto
qed

lemma update_branch:
  assumes dp: "dashboard_panels d = Some ps" and ex: "\<exists>p\<in>set ps. has300 p"
    and ok: "exit_status (add_tx_creation_panel_main d) = Exit 0"
  shows "\<exists>xs p ys y. ps = xs @ p # ys \<and> (\<forall>q\<in>set xs. is_panel q \<and> \<not> has300 q) \<and> has300 p
           \<and> grid_y p = Some y
           \<and> file_after (add_tx_creation_panel_main d) =
               with_panels d (xs @ create_tx_creation_panel 300 0 y 24 8 # ys)"
proof -
  from main_tx_success[OF ok] dp obtain i where
    i: "find_row ''Database Transactions'' ps 0 = Inr (Some i)"
    and b: "panel_exists_loop ps = Inr True \<or> panel_exists_loop ps = Inr False" by auto
  from b ex have t: "panel_exists_loop ps = Inr True" by (auto simp: exists_False)
  from exists_True_split[OF t] obtain xs p ys where
    sp: "ps = xs @ p # ys" "\<forall>q\<in>set xs. is_panel q \<and> \<not> has300 q" "has300 p" by blast
  note run = main_tx_update[OF dp i t]
  note upd = update_at[OF sp(2,3), of ys]
  show ?thesis
  proof (cases "grid_y p")
    case None
    with ok run upd sp(1) show ?thesis by (simp add: crashed_def)
  next
    case (Some y)
    with run upd sp show ?thesis by auto
  qed
qed


subsection \<open>Where the bulk script inserts\<close>

text \<open>
  C7. In a dashboard whose panels are records and whose first row titled \<^verbatim>\<open>Database\<close> is at index
  \<open>i\<close>, the first loop finds \<open>i\<close>, and the \<^verbatim>\<open>while\<close> loop started at \<open>i + 1\<close> stops at the index
  \<open>k\<close> of the next row after \<open>i\<close>, or at the length of the sequence when no row follows. The new
  block is spliced in at \<open>k\<close> when the shift loop goes through.
\<close>

theorem insertion_index_is_section_end:
  assumes "dashboard_panels d = Some ps" and "list_all is_panel ps"
    and "i < length ps" and "is_row_titled ''Database'' (ps ! i)"
    and "\<forall>j<i. \<not> is_row_titled ''Database'' (ps ! j)"
  shows "\<exists>k. find_row ''Database'' ps 0 = Inr (Some i)
           \<and> section_end ps (i + 1) = Inr k
           \<and> i < k \<and> k \<le> length ps
           \<and> (\<forall>j. i < j \<and> j < k \<longrightarrow> \<not> is_row (ps ! j))
           \<and> (k < length ps \<longrightarrow> is_row (ps ! k))
           \<and> (\<forall>shifted. for_each (shift_panel_db 40) (drop k ps) = Inr shifted \<longrightarrow>
                 exit_status (add_db_panels_main d) = Exit 0
                 \<and> file_after (add_db_panels_main d) =
                     with_panels d (take k ps @ new_db_panels @ shifted))"
proof -
  have split: "ps = take i ps @ ps ! i # drop (Suc i) ps"
    using assms(3) by (simp add: id_take_nth_drop)
  have before: "\<forall>p\<in>set (take i ps). is_panel p \<and> \<not> is_row_titled ''Database'' p"
    using assms(2,3,5) by (auto simp: in_set_conv_nth list_all_length)
  have pan: "is_panel (ps ! i)" using assms(2,3) by (simp add: list_all_length)
  have "find_row ''Database'' (take i ps @ ps ! i # drop (Suc i) ps) 0
          = Inr (Some (0 + length (take i ps)))"
    using before pan assms(4) by (rule find_row_at)
  then have found: "find_row ''Database'' ps 0 = Inr (Some i)"
    using split assms(3) by simp
  from section_end_total[OF assms(2)] obtain k where k: "section_end ps (Suc i) = Inr k" by blast
  from section_end_spec[OF k] assms(3)
  have spec: "i < k" "k \<le> length ps" "\<forall>j. i < j \<and> j < k \<longrightarrow> \<not> is_row (ps ! j)"
    "k < length ps \<longrightarrow> is_row (ps ! k)" by auto
  have run: "\<forall>shifted. for_each (shift_panel_db 40) (drop k ps) = Inr shifted \<longrightarrow>
                 exit_status (add_db_panels_main d) = Exit 0
                 \<and> file_after (add_db_panels_main d) =
                     with_panels d (take k ps @ new_db_panels @ shifted)"
    by (simp add: main_db_found[OF assms(1) found k])
  show ?thesis using found k spec run by auto
qed

theorem insertion_index_is_section_end_witness:
  "dashboard_panels sample_db = Some sample_db_panels \<and> list_all is_panel sample_db_panels
   \<and> 0 < length sample_db_panels \<and> is_row_titled ''Database'' (sample_db_panels ! 0)
   \<and> section_end sample_db_panels (0 + 1) = Inr 3
   \<and> is_row (sample_db_panels ! 3)
   \<and> exit_status (add_db_panels_main sample_db) = Exit 0
   \<and> file_after (add_db_panels_main sample_db) =
        with_panels sample_db (take 3 sample_db_panels @ new_db_panels @ [
          JObj [(''id'', JInt 4), (''type'', JStr ''row''), (''title'', JStr ''Network''),
                (''gridPos'', grid 1 24 0 60)],
          JObj [(''id'', JInt 5), (''type'', JStr ''text'')],
          JObj [(''id'', JInt 6), (''type'', JStr ''stat''), (''title'', JStr ''Peers''),
                (''gridPos'', grid 4 6 0 61)]])"
proof -
  have h: "dashboard_panels sample_db = Some sample_db_panels" "list_all is_panel sample_db_panels"
    "0 < length sample_db_panels" "is_row_titled ''Database'' (sample_db_panels ! 0)"
    by code_simp+
  have h5: "\<forall>j<0. \<not> is_row_titled ''Database'' (sample_db_panels ! j)" by simp
  have e: "section_end sample_db_panels (0 + 1) = Inr 3" by code_simp
  have r: "is_row (sample_db_panels ! 3)" by code_simp
  have s: "for_each (shift_panel_db 40) (drop 3 sample_db_panels) = Inr [
          JObj [(''id'', JInt 4), (''type'', JStr ''row''), (''title'', JStr ''Network''),
                (''gridPos'', grid 1 24 0 60)],
          JObj [(''id'', JInt 5), (''type'', JStr ''text'')],
          JObj [(''id'', JInt 6), (''type'', JStr ''stat''), (''title'', JStr ''Peers''),
                (''gridPos'', grid 4 6 0 61)]]" by code_simp
  from insertion_index_is_section_end[OF h h5] e s h r show ?thesis by auto
qed


subsection \<open>Panels without a layout rectangle\<close>

text \<open>
  C8. A panel record without the key \<^verbatim>\<open>gridPos\<close> passes the body of either shift loop as it is,
  and a shift loop over a slice that contains it does exactly what it does on the panels
  before and after it, with the record left in its place: it never makes the loop raise.
\<close>

theorem missing_gridPos_skipped:
  assumes "is_panel p" and "\<not> has_grid p"
  shows "shift_panel_db c p = Inr p
       \<and> shift_panel_tx ny c p = Inr p
       \<and> for_each (shift_panel_db c) (xs @ p # ys) =
           exc_bind (for_each (shift_panel_db c) xs) (\<lambda>xs'.
           exc_bind (for_each (shift_panel_db c) ys) (\<lambda>ys'. Inr (xs' @ p # ys')))
       \<and> for_each (shift_panel_tx ny c) (xs @ p # ys) =
           exc_bind (for_each (shift_panel_tx ny c) xs) (\<lambda>xs'.
           exc_bind (for_each (shift_panel_tx ny c) ys) (\<lambda>ys'. Inr (xs' @ p # ys')))"
proof -
  have a: "shift_panel_db c p = Inr p" using assms by (rule shift_db_nogrid)
  have b: "shift_panel_tx ny c p = Inr p" using assms by (rule shift_tx_nogrid)
  have c: "for_each (shift_panel_db c) (xs @ p # ys) =
           exc_bind (for_each (shift_panel_db c) xs) (\<lambda>xs'.
           exc_bind (for_each (shift_panel_db c) ys) (\<lambda>ys'. Inr (xs' @ p # ys')))"
    by (cases "for_each (shift_panel_db c) xs"; cases "for_each (shift_panel_db c) ys")
       (simp_all add: for_each_append a)
  have d: "for_each (shift_panel_tx ny c) (xs @ p # ys) =
           exc_bind (for_each (shift_panel_tx ny c) xs) (\<lambda>xs'.
           exc_bind (for_each (shift_panel_tx ny c) ys) (\<lambda>ys'. Inr (xs' @ p # ys')))"
    by (cases "for_each (shift_panel_tx ny c) xs"; cases "for_each (shift_panel_tx ny c) ys")
       (simp_all add: for_each_append b)
  show ?thesis using a b c d by simp
qed

theorem missing_gridPos_skipped_witness:
  "is_panel (JObj [(''id'', JInt 5), (''type'', JStr ''text'')])
   \<and> \<not> has_grid (JObj [(''id'', JInt 5), (''type'', JStr ''text'')])
   \<and> for_each (shift_panel_db 40)
        ([JObj [(''id'', JInt 4), (''gridPos'', grid 1 24 0 20)]]
          @ JObj [(''id'', JInt 5), (''type'', JStr ''text'')]
          # [JObj [(''id'', JInt 6), (''gridPos'', grid 4 6 0 21)]])
       = Inr [JObj [(''id'', JInt 4), (''gridPos'', grid 1 24 0 60)],
              JObj [(''id'', JInt 5), (''type'', JStr ''text'')],
              JObj [(''id'', JInt 6), (''gridPos'', grid 4 6 0 61)]]
   \<and> for_each (shift_panel_tx 5 8)
        ([JObj [(''id'', JInt 4), (''gridPos'', grid 1 24 0 20)]]
          @ JObj [(''id'', JInt 5), (''type'', JStr ''text'')]
          # [JObj [(''id'', JInt 6), (''gridPos'', grid 4 6 0 21)]])
       = Inr [JObj [(''id'', JInt 4), (''gridPos'', grid 1 24 0 28)],
              JObj [(''id'', JInt 5), (''type'', JStr ''text'')],
              JObj [(''id'', JInt 6), (''gridPos'', grid 4 6 0 29)]]"
proof -
  have h1: "is_panel (JObj [(''id'', JInt 5), (''type'', JStr ''text'')])" by code_simp
  have h2: "\<not> has_grid (JObj [(''id'', JInt 5), (''type'', JStr ''text'')])" by code_simp
  have e1: "for_each (shift_panel_db 40) [JObj [(''id'', JInt 4), (''gridPos'', grid 1 24 0 20)]]
              = Inr [JObj [(''id'', JInt 4), (''gridPos'', grid 1 24 0 60)]]" by code_simp
  have e2: "for_each (shift_panel_db 40) [JObj [(''id'', JInt 6), (''gridPos'', grid 4 6 0 21)]]
              = Inr [JObj [(''id'', JInt 6), (''gridPos'', grid 4 6 0 61)]]" by code_simp
  have e3: "for_each (shift_panel_tx 5 8) [JObj [(''id'', JInt 4), (''gridPos'', grid 1 24 0 20)]]
              = Inr [JObj [(''id'', JInt 4), (''gridPos'', grid 1 24 0 28)]]" by code_simp
  have e4: "for_each (shift_panel_tx 5 8) [JObj [(''id'', JInt 6), (''gridPos'', grid 4 6 0 21)]]
              = Inr [JObj [(''id'', JInt 6), (''gridPos'', grid 4 6 0 29)]]" by code_simp
  note w = missing_gridPos_skipped[OF h1 h2, of 40 5
      "[JObj [(''id'', JInt 4), (''gridPos'', grid 1 24 0 20)]]"
      "[JObj [(''id'', JInt 6), (''gridPos'', grid 4 6 0 21)]]"]
  note w' = missing_gridPos_skipped[OF h1 h2, of 8 5
      "[JObj [(''id'', JInt 4), (''gridPos'', grid 1 24 0 20)]]"
      "[JObj [(''id'', JInt 6), (''gridPos'', grid 4 6 0 21)]]"]
  from w have c1: "for_each (shift_panel_db 40)
        ([JObj [(''id'', JInt 4), (''gridPos'', grid 1 24 0 20)]]
          @ JObj [(''id'', JInt 5), (''type'', JStr ''text'')]
          # [JObj [(''id'', JInt 6), (''gridPos'', grid 4 6 0 21)]])
       = Inr [JObj [(''id'', JInt 4), (''gridPos'', grid 1 24 0 60)],
              JObj [(''id'', JInt 5), (''type'', JStr ''text'')],
              JObj [(''id'', JInt 6), (''gridPos'', grid 4 6 0 61)]]"
    by (simp only: e1 e2 exc_bind_simps append.simps)
  from w' have c2: "for_each (shift_panel_tx 5 8)
        ([JObj [(''id'', JInt 4), (''gridPos'', grid 1 24 0 20)]]
          @ JObj [(''id'', JInt 5), (''type'', JStr ''text'')]
          # [JObj [(''id'', JInt 6), (''gridPos'', grid 4 6 0 21)]])
       = Inr [JObj [(''id'', JInt 4), (''gridPos'', grid 1 24 0 28)],
              JObj [(''id'', JInt 5), (''type'', JStr ''text'')],
              JObj [(''id'', JInt 6), (''gridPos'', grid 4 6 0 29)]]"
    by (simp only: e3 e4 exc_bind_simps append.simps)
  show ?thesis by (intro conjI) (rule h1 h2 c1 c2)+
qed


subsection \<open>The update-in-place branch\<close>

text \<open>
  C10. When some panel has id 300 and the singleton script completes, the file's panel sequence
  differs from the one read only at the index of the first panel with id 300: same length,
  every other index holds the panel it held, and every other key of the document is as it was.
\<close>

theorem update_in_place_frame:
  assumes "dashboard_panels d = Some ps" and "\<exists>p\<in>set ps. has300 p"
    and "exit_status (add_tx_creation_panel_main d) = Exit 0"
  shows "\<exists>i ps'. i < length ps \<and> has300 (ps ! i) \<and> (\<forall>j<i. \<not> has300 (ps ! j))
           \<and> dashboard_panels (file_after (add_tx_creation_panel_main d)) = Some ps'
           \<and> length ps' = length ps
           \<and> (\<forall>j<length ps. j \<noteq> i \<longrightarrow> ps' ! j = ps ! j)
           \<and> (\<forall>k. k \<noteq> ''panels'' \<longrightarrow> field k (file_after (add_tx_creation_panel_main d)) = field k d)"
proof -
  from update_branch[OF assms] obtain xs p ys y where
    sp: "ps = xs @ p # ys" "\<forall>q\<in>set xs. is_panel q \<and> \<not> has300 q" "has300 p"
    and fa: "file_after (add_tx_creation_panel_main d) =
               with_panels d (xs @ create_tx_creation_panel 300 0 y 24 8 # ys)" by blast
  let ?ps' = "xs @ create_tx_creation_panel 300 0 y 24 8 # ys"
  have 1: "length xs < length ps" using sp(1) by simp
  have 2: "has300 (ps ! length xs)" using sp by simp
  have 3: "\<forall>j<length xs. \<not> has300 (ps ! j)" using sp by (auto simp: nth_append)
  have 4: "dashboard_panels (file_after (add_tx_creation_panel_main d)) = Some ?ps'"
    using fa assms(1) by (simp add: dashboard_with_panels)
  have 5: "length ?ps' = length ps" using sp(1) by simp
  have 6: "\<forall>j<length ps. j \<noteq> length xs \<longrightarrow> ?ps' ! j = ps ! j"
    using sp(1) by (auto simp: nth_append nth_Cons split: nat.splits)
  have 7: "\<forall>k. k \<noteq> ''panels'' \<longrightarrow> field k (file_after (add_tx_creation_panel_main d)) = field k d"
    unfolding fa by (cases d) (auto simp: field_def update_conv')
  show ?thesis using 1 2 3 4 5 6 7 by blast
qed


theorem update_in_place_frame_witness:
  "dashboard_panels sample_tx_300 = Some sample_tx_300_panels
   \<and> (\<exists>p\<in>set sample_tx_300_panels. has300 p)
   \<and> exit_status (add_tx_creation_panel_main sample_tx_300) = Exit 0
   \<and> (\<exists>i ps'. i < length sample_tx_300_panels \<and> has300 (sample_tx_300_panels ! i)
           \<and> (\<forall>j<i. \<not> has300 (sample_tx_300_panels ! j))
           \<and> dashboard_panels (file_after (add_tx_creation_panel_main sample_tx_300)) = Some ps'
           \<and> length ps' = length sample_tx_300_panels
           \<and> (\<forall>j<length sample_tx_300_panels. j \<noteq> i \<longrightarrow> ps' ! j = sample_tx_300_panels ! j)
           \<and> (\<forall>k. k \<noteq> ''panels'' \<longrightarrow>
                 field k (file_after (add_tx_creation_panel_main sample_tx_300)) = field k sample_tx_300))"
proof -
  have h1: "dashboard_panels sample_tx_300 = Some sample_tx_300_panels" by code_simp
  have h2: "\<exists>p\<in>set sample_tx_300_panels. has300 p" by code_simp
  have h3: "exit_status (add_tx_creation_panel_main sample_tx_300) = Exit 0" by code_simp
  from update_in_place_frame[OF h1 h2 h3] h1 h2 h3 show ?thesis by blast
qed


text \<open>
  C6 (as amended). In the same branch the record put in place of the first panel with id 300 is
  \<open>create_tx_creation_panel 300 0 y 24 8\<close>, where \<open>y\<close> is the \<^verbatim>\<open>y\<close> of the replaced record's
  rectangle: the \<^verbatim>\<open>y\<close> is kept, and \<^verbatim>\<open>x\<close>, \<^verbatim>\<open>w\<close> and \<^verbatim>\<open>h\<close> are 0, 24 and 8 whatever they were.
\<close>

theorem update_keeps_y_resets_rectangle:
  assumes "dashboard_panels d = Some ps" and "\<exists>p\<in>set ps. has300 p"
    and "exit_status (add_tx_creation_panel_main d) = Exit 0"
  shows "\<exists>i ps' y. i < length ps \<and> has300 (ps ! i) \<and> (\<forall>j<i. \<not> has300 (ps ! j))
           \<and> dashboard_panels (file_after (add_tx_creation_panel_main d)) = Some ps'
           \<and> grid_y (ps ! i) = Some y
           \<and> ps' ! i = create_tx_creation_panel 300 0 y 24 8
           \<and> field ''gridPos'' (ps' ! i) =
                Some (JObj [(''h'', JInt 8), (''w'', JInt 24), (''x'', JInt 0), (''y'', y)])"
proof -
  from update_branch[OF assms] obtain xs p ys y where
    sp: "ps = xs @ p # ys" "\<forall>q\<in>set xs. is_panel q \<and> \<not> has300 q" "has300 p" "grid_y p = Some y"
    and fa: "file_after (add_tx_creation_panel_main d) =
               with_panels d (xs @ create_tx_creation_panel 300 0 y 24 8 # ys)" by blast
  let ?ps' = "xs @ create_tx_creation_panel 300 0 y 24 8 # ys"
  have 1: "length xs < length ps" using sp(1) by simp
  have 2: "has300 (ps ! length xs)" using sp by simp
  have 3: "\<forall>j<length xs. \<not> has300 (ps ! j)" using sp by (auto simp: nth_append)
  have 4: "dashboard_panels (file_after (add_tx_creation_panel_main d)) = Some ?ps'"
    using fa assms(1) by (simp add: dashboard_with_panels)
  have 5: "grid_y (ps ! length xs) = Some y" using sp by simp
  have 6: "?ps' ! length xs = create_tx_creation_panel 300 0 y 24 8" by simp
  have 7: "field ''gridPos'' (?ps' ! length xs) =
                Some (JObj [(''h'', JInt 8), (''w'', JInt 24), (''x'', JInt 0), (''y'', y)])"
    by (simp add: create_tx_fields)
  show ?thesis using 1 2 3 4 5 6 7 by blast
qed

theorem update_keeps_y_resets_rectangle_witness:
  "dashboard_panels sample_tx_300 = Some sample_tx_300_panels
   \<and> (\<exists>p\<in>set sample_tx_300_panels. has300 p)
   \<and> exit_status (add_tx_creation_panel_main sample_tx_300) = Exit 0
   \<and> (\<exists>i ps' y. i < length sample_tx_300_panels \<and> has300 (sample_tx_300_panels ! i)
           \<and> (\<forall>j<i. \<not> has300 (sample_tx_300_panels ! j))
           \<and> dashboard_panels (file_after (add_tx_creation_panel_main sample_tx_300)) = Some ps'
           \<and> grid_y (sample_tx_300_panels ! i) = Some y
           \<and> ps' ! i = create_tx_creation_panel 300 0 y 24 8
           \<and> field ''gridPos'' (ps' ! i) =
                Some (JObj [(''h'', JInt 8), (''w'', JInt 24), (''x'', JInt 0), (''y'', y)]))"
proof -
  have h1: "dashboard_panels sample_tx_300 = Some sample_tx_300_panels" by code_simp
  have h2: "\<exists>p\<in>set sample_tx_300_panels. has300 p" by code_simp
  have h3: "exit_status (add_tx_creation_panel_main sample_tx_300) = Exit 0" by code_simp
  from update_keeps_y_resets_rectangle[OF h1 h2 h3] h1 h2 h3 show ?thesis by blast
qed


text \<open>
  The claim as stated (the same rectangle \<^verbatim>\<open>x\<close>, \<^verbatim>\<open>y\<close>, \<^verbatim>\<open>w\<close>, \<^verbatim>\<open>h\<close>) fails on a dashboard
  whose panel 300 sits at \<^verbatim>\<open>x=12, y=5, w=12, h=4\<close>: it comes back at \<^verbatim>\<open>x=0, y=5, w=24, h=8\<close>.
\<close>

theorem rectangle_not_kept_counterexample:
  "exit_status (add_tx_creation_panel_main sample_tx_300) = Exit 0
   \<and> has300 (sample_tx_300_panels ! 1)
   \<and> field ''gridPos'' (sample_tx_300_panels ! 1) = Some (grid 4 12 12 5)
   \<and> field ''gridPos'' (panels_of (file_after (add_tx_creation_panel_main sample_tx_300)) ! 1)
       = Some (grid 8 24 0 5)
   \<and> grid 8 24 0 5 \<noteq> grid 4 12 12 5"
  by code_simp

subsection \<open>Running the singleton script again\<close>

lemma tx_result_shape:
  assumes ok: "exit_status (add_tx_creation_panel_main d) = Exit 0"
  shows "\<exists>ps xs y ys. dashboard_panels d = Some ps
          \<and> file_after (add_tx_creation_panel_main d) =
               with_panels d (xs @ create_tx_creation_panel 300 0 y 24 8 # ys)
          \<and> (\<forall>q\<in>set xs. is_panel q \<and> \<not> has300 q)"
proof -
  from main_tx_success[OF ok] obtain ps i where
    dp: "dashboard_panels d = Some ps"
    and i: "find_row ''Database Transactions'' ps 0 = Inr (Some i)"
    and b: "panel_exists_loop ps = Inr True \<or> panel_exists_loop ps = Inr False" by blast
  from b show ?thesis
  proof
    assume t: "panel_exists_loop ps = Inr True"
    from exists_True_split[OF t] have "\<exists>p\<in>set ps. has300 p" by auto
    from update_branch[OF dp this ok] dp show ?thesis by blast
  next
    assume f: "panel_exists_loop ps = Inr False"
    note run = main_tx_insert[OF dp i f]
    from ok run obtain row_y where ry: "exc_bind (getitem (ps ! i) ''gridPos'') (\<lambda>g. getitem g ''y'') = Inr row_y"
      by (cases "exc_bind (getitem (ps ! i) ''gridPos'') (\<lambda>g. getitem g ''y'')") (auto simp: crashed_def)
    from ok run ry obtain ny where ny: "py_add row_y 1 = Inr ny"
      by (cases "py_add row_y 1") (auto simp: crashed_def)
    from ok run ry ny obtain sh where sh: "for_each (shift_panel_tx ny 8) (drop (Suc i) ps) = Inr sh"
      by (cases "for_each (shift_panel_tx ny 8) (drop (Suc i) ps)") (auto simp: crashed_def)
    have fa: "file_after (add_tx_creation_panel_main d) =
        with_panels d (take (Suc i) ps @ create_tx_creation_panel 300 0 (JInt ny) 24 8 # sh)"
      using run ry ny sh by simp
    have "\<forall>q\<in>set (take (Suc i) ps). is_panel q \<and> \<not> has300 q"
      using f by (auto simp: exists_False dest: in_set_takeD)
    with dp fa show ?thesis by blast
  qed
qed

lemma tx_stable:
  assumes dp: "dashboard_panels d = Some (xs @ create_tx_creation_panel 300 0 y 24 8 # ys)"
    and xs: "\<forall>q\<in>set xs. is_panel q \<and> \<not> has300 q"
  shows "file_after (add_tx_creation_panel_main d) = d"
proof (cases "exit_status (add_tx_creation_panel_main d) = Exit 0")
  case False
  then show ?thesis by (rule main_tx_unchanged)
next
  case True
  let ?ps = "xs @ create_tx_creation_panel 300 0 y 24 8 # ys"
  from main_tx_success[OF True] dp obtain i where
    i: "find_row ''Database Transactions'' ?ps 0 = Inr (Some i)" by auto
  have t: "panel_exists_loop ?ps = Inr True"
    using xs create_tx_has300 by (rule exists_True_at)
  have u: "update_loop ?ps = Inr (?ps,
      [[S ''Updated existing transaction creation panel at position y='', V y]])"
    using update_at[OF xs create_tx_has300, of 0 y 24 8 ys] by (simp add: create_tx_grid_y)
  show ?thesis
    using main_tx_update[OF dp i t] u by (simp add: with_panels_same[OF dp])
qed

lemma tx_idempotent:
  "file_after (add_tx_creation_panel_main (file_after (add_tx_creation_panel_main d)))
     = file_after (add_tx_creation_panel_main d)"
proof (cases "exit_status (add_tx_creation_panel_main d) = Exit 0")
  case False
  then have "file_after (add_tx_creation_panel_main d) = d" by (rule main_tx_unchanged)
  then show ?thesis by simp
next
  case True
  from tx_result_shape[OF True] obtain ps xs y ys where
    dp: "dashboard_panels d = Some ps"
    and fa: "file_after (add_tx_creation_panel_main d) =
               with_panels d (xs @ create_tx_creation_panel 300 0 y 24 8 # ys)"
    and xs: "\<forall>q\<in>set xs. is_panel q \<and> \<not> has300 q" by blast
  have "dashboard_panels (file_after (add_tx_creation_panel_main d))
          = Some (xs @ create_tx_creation_panel 300 0 y 24 8 # ys)"
    unfolding fa using dp by (rule dashboard_with_panels)
  from tx_stable[OF this xs] show ?thesis .
qed

lemma find_row_total:
  "list_all is_panel ps \<Longrightarrow> \<exists>p\<in>set ps. is_row_titled t p \<Longrightarrow> \<exists>k. find_row t ps i = Inr (Some k)"
  by (induction ps arbitrary: i) (auto simp: find_row_step)


lemma tx_rerun_scenario:
  assumes dp: "dashboard_panels d = Some ps" and pans: "list_all is_panel ps"
    and anchor: "\<exists>p\<in>set ps. is_row_titled ''Database Transactions'' p"
    and one: "length (filter has300 ps) = 1"
    and y5: "\<forall>p\<in>set ps. has300 p \<longrightarrow> grid_y p = Some (JInt 5)"
  shows "exit_status (add_tx_creation_panel_main d) = Exit 0
       \<and> (\<exists>ps'. dashboard_panels (file_after (add_tx_creation_panel_main d)) = Some ps'
             \<and> length ps' = length ps
             \<and> filter has300 ps' = [create_tx_creation_panel 300 0 (JInt 5) 24 8]
             \<and> grid_y (create_tx_creation_panel 300 0 (JInt 5) 24 8) = Some (JInt 5))"
proof -
  from find_row_total[OF pans anchor] obtain i where
    i: "find_row ''Database Transactions'' ps 0 = Inr (Some i)" by blast
  from one have "filter has300 ps \<noteq> []" by auto
  then have "\<exists>p\<in>set ps. has300 p" by (simp add: filter_empty_conv)
  from split_list_first_prop[OF this] obtain xs p ys where
    sp: "ps = xs @ p # ys" "has300 p" "\<forall>q\<in>set xs. \<not> has300 q" by blast
  have xs: "\<forall>q\<in>set xs. is_panel q \<and> \<not> has300 q"
    using sp(1,3) pans by (auto simp: list_all_iff)
  have t: "panel_exists_loop ps = Inr True"
    unfolding sp(1) using xs sp(2) by (rule exists_True_at)
  have gy: "grid_y p = Some (JInt 5)" using y5 sp(1,2) by simp
  let ?new = "create_tx_creation_panel 300 0 (JInt 5) 24 8"
  have u: "update_loop ps = Inr (xs @ ?new # ys,
      [[S ''Updated existing transaction creation panel at position y='', V (JInt 5)]])"
    unfolding sp(1) using update_at[OF xs sp(2), of ys] by (simp add: gy)
  note run = main_tx_update[OF dp i t]
  have ok: "exit_status (add_tx_creation_panel_main d) = Exit 0" using run u by simp
  have fa: "file_after (add_tx_creation_panel_main d) = with_panels d (xs @ ?new # ys)"
    using run u by simp
  have 1: "dashboard_panels (file_after (add_tx_creation_panel_main d)) = Some (xs @ ?new # ys)"
    unfolding fa using dp by (rule dashboard_with_panels)
  have 2: "length (xs @ ?new # ys) = length ps" using sp(1) by simp
  have fxs: "filter has300 xs = []" using sp(3) by (simp add: filter_empty_conv)
  have fys: "filter has300 ys = []" using one sp(1,2) fxs by simp
  have 3: "filter has300 (xs @ ?new # ys) = [?new]"
    using fxs fys by (simp add: create_tx_has300)
  have 4: "grid_y ?new = Some (JInt 5)" by (rule create_tx_grid_y)
  show ?thesis using ok 1 2 3 4 by blast
qed


text \<open>
  C2. Whatever the file holds, the file after two runs of the singleton script in a row is the
  file after one run. In particular, on a dashboard of panel records with a row titled
  \<^verbatim>\<open>Database Transactions\<close> and exactly one panel with id 300, at \<^verbatim>\<open>y = 5\<close>, the run completes
  with status 0, the number of panels is unchanged, and exactly one panel has id 300: the
  freshly built \<open>create_tx_creation_panel 300 0 5 24 8\<close>, at \<^verbatim>\<open>y = 5\<close>.
\<close>

theorem singleton_rerun_idempotent:
  "file_after (add_tx_creation_panel_main (file_after (add_tx_creation_panel_main d)))
     = file_after (add_tx_creation_panel_main d)
   \<and> (dashboard_panels d = Some ps \<and> list_all is_panel ps
        \<and> (\<exists>p\<in>set ps. is_row_titled ''Database Transactions'' p)
        \<and> length (filter has300 ps) = 1
        \<and> (\<forall>p\<in>set ps. has300 p \<longrightarrow> grid_y p = Some (JInt 5))
      \<longrightarrow> exit_status (add_tx_creation_panel_main d) = Exit 0
          \<and> (\<exists>ps'. dashboard_panels (file_after (add_tx_creation_panel_main d)) = Some ps'
                \<and> length ps' = length ps
                \<and> filter has300 ps' = [create_tx_creation_panel 300 0 (JInt 5) 24 8]
                \<and> grid_y (create_tx_creation_panel 300 0 (JInt 5) 24 8) = Some (JInt 5)))"
  using tx_idempotent[of d] tx_rerun_scenario[of d ps] by blast

theorem singleton_rerun_idempotent_witness:
  "dashboard_panels sample_tx_300 = Some sample_tx_300_panels
   \<and> list_all is_panel sample_tx_300_panels
   \<and> (\<exists>p\<in>set sample_tx_300_panels. is_row_titled ''Database Transactions'' p)
   \<and> length (filter has300 sample_tx_300_panels) = 1
   \<and> \<not> (\<exists>p\<in>set sample_tx_300_panels. has300 p \<and> grid_y p \<noteq> Some (JInt 5))
   \<and> file_after (add_tx_creation_panel_main (file_after (add_tx_creation_panel_main sample_tx_300)))
       = file_after (add_tx_creation_panel_main sample_tx_300)
   \<and> exit_status (add_tx_creation_panel_main sample_tx_300) = Exit 0
   \<and> (\<exists>ps'. dashboard_panels (file_after (add_tx_creation_panel_main sample_tx_300)) = Some ps'
         \<and> length ps' = length sample_tx_300_panels
         \<and> filter has300 ps' = [create_tx_creation_panel 300 0 (JInt 5) 24 8]
         \<and> grid_y (create_tx_creation_panel 300 0 (JInt 5) 24 8) = Some (JInt 5))"
proof -
  have h: "dashboard_panels sample_tx_300 = Some sample_tx_300_panels"
    "list_all is_panel sample_tx_300_panels"
    "\<exists>p\<in>set sample_tx_300_panels. is_row_titled ''Database Transactions'' p"
    "length (filter has300 sample_tx_300_panels) = 1"
    "\<not> (\<exists>p\<in>set sample_tx_300_panels. has300 p \<and> grid_y p \<noteq> Some (JInt 5))"
    by code_simp+
  from singleton_rerun_idempotent[of sample_tx_300 sample_tx_300_panels] h
  show ?thesis by blast
qed

subsection \<open>Panel ids\<close>

lemma panel_ids_append: "panel_ids (xs @ ys) = panel_ids xs @ panel_ids ys"
  by (induction xs) (auto split: option.splits)

lemma panel_ids_take_drop: "panel_ids (take k xs) @ panel_ids (drop k xs) = panel_ids xs"
  by (simp add: panel_ids_append[symmetric])

lemma panel_ids_cong:
  "map (field ''id'') ps = map (field ''id'') qs \<Longrightarrow> panel_ids ps = panel_ids qs"
proof (induction ps arbitrary: qs)
  case Nil
  then show ?case by simp
next
  case (Cons p ps)
  then obtain q qs' where "qs = q # qs'" by (cases qs) auto
  with Cons show ?case by (auto split: option.splits)
qed

lemma set_panel_ids: "v \<in> set (panel_ids ps) \<longleftrightarrow> (\<exists>p\<in>set ps. field ''id'' p = Some v)"
  by (induction ps) (auto split: option.splits)

lemma for_each_db_ids:
  assumes "for_each (shift_panel_db c) ps = Inr sh"
  shows "panel_ids sh = panel_ids ps"
proof (rule panel_ids_cong, rule nth_equalityI)
  from assms have len: "length sh = length ps"
    and each: "\<forall>j<length ps. shift_panel_db c (ps ! j) = Inr (sh ! j)"
    by (simp_all add: for_each_Inr)
  show "length (map (field ''id'') sh) = length (map (field ''id'') ps)" using len by simp
  fix j assume "j < length (map (field ''id'') sh)"
  then have j: "j < length ps" using len by simp
  with each have "field ''id'' (sh ! j) = field ''id'' (ps ! j)"
    by (auto intro: shift_db_field)
  then show "map (field ''id'') sh ! j = map (field ''id'') ps ! j" using j len by simp
qed

lemma for_each_tx_ids:
  assumes "for_each (shift_panel_tx ny c) ps = Inr sh"
  shows "panel_ids sh = panel_ids ps"
proof (rule panel_ids_cong, rule nth_equalityI)
  from assms have len: "length sh = length ps"
    and each: "\<forall>j<length ps. shift_panel_tx ny c (ps ! j) = Inr (sh ! j)"
    by (simp_all add: for_each_Inr)
  show "length (map (field ''id'') sh) = length (map (field ''id'') ps)" using len by simp
  fix j assume "j < length (map (field ''id'') sh)"
  then have j: "j < length ps" using len by simp
  with each have "field ''id'' (sh ! j) = field ''id'' (ps ! j)"
    by (auto intro: shift_tx_field)
  then show "map (field ''id'') sh ! j = map (field ''id'') ps ! j" using j len by simp
qed

lemma new_db_summary:
  "map summary new_db_panels = [
    (Some (JInt 200), Some (JStr ''row''), Some (grid 1 24 0 17)),
    (Some (JInt 201), Some (JStr ''timeseries''), Some (grid 8 12 0 18)),
    (Some (JInt 202), Some (JStr ''timeseries''), Some (grid 8 12 12 18)),
    (Some (JInt 203), Some (JStr ''stat''), Some (grid 4 6 0 26)),
    (Some (JInt 204), Some (JStr ''stat''), Some (grid 4 6 6 26)),
    (Some (JInt 205), Some (JStr ''stat''), Some (grid 4 6 12 26)),
    (Some (JInt 206), Some (JStr ''stat''), Some (grid 4 6 18 26)),
    (Some (JInt 207), Some (JStr ''row''), Some (grid 1 24 0 30)),
    (Some (JInt 208), Some (JStr ''timeseries''), Some (grid 8 12 0 31)),
    (Some (JInt 209), Some (JStr ''timeseries''), Some (grid 8 12 12 31)),
    (Some (JInt 210), Some (JStr ''gauge''), Some (grid 6 6 0 39)),
    (Some (JInt 211), Some (JStr ''stat''), Some (grid 3 6 6 39)),
    (Some (JInt 212), Some (JStr ''stat''), Some (grid 3 3 6 42)),
    (Some (JInt 213), Some (JStr ''stat''), Some (grid 3 3 9 42)),
    (Some (JInt 214), Some (JStr ''stat''), Some (grid 3 6 12 39)),
    (Some (JInt 215), Some (JStr ''stat''), Some (grid 3 6 18 39)),
    (Some (JInt 216), Some (JStr ''stat''), Some (grid 3 3 18 42)),
    (Some (JInt 217), Some (JStr ''stat''), Some (grid 3 3 21 42)),
    (Some (JInt 218), Some (JStr ''row''), Some (grid 1 24 0 45)),
    (Some (JInt 219), Some (JStr ''timeseries''), Some (grid 8 12 0 46)),
    (Some (JInt 220), Some (JStr ''timeseries''), Some (grid 8 12 12 46)),
    (Some (JInt 221), Some (JStr ''timeseries''), Some (grid 8 12 0 54)),
    (Some (JInt 222), Some (JStr ''timeseries''), Some (grid 8 12 12 54))]"
  using gen_summary unfolding generate_db_panels_eq by simp

lemma ids_via_summary: "map (field ''id'') ps = map fst (map summary ps)"
  by (simp add: summary_def)

lemma new_db_id_fields:
  "map (field ''id'') new_db_panels = map (\<lambda>n. Some (JInt n)) [200..222]"
  unfolding ids_via_summary new_db_summary by (simp add: upto.simps)

lemma panel_ids_all_Some: "map (field ''id'') ps = map Some vs \<Longrightarrow> panel_ids ps = vs"
proof (induction ps arbitrary: vs)
  case Nil
  then show ?case by simp
next
  case (Cons p ps)
  then obtain v vs' where "vs = v # vs'" by (cases vs) auto
  with Cons show ?case by auto
qed

lemma new_db_ids: "panel_ids new_db_panels = map JInt [200..222]"
  by (rule panel_ids_all_Some) (simp add: new_db_id_fields)

lemma distinct_new_db_ids: "distinct (panel_ids new_db_panels)"
  unfolding new_db_ids by (simp add: distinct_map inj_on_def)

lemma in_new_db_ids:
  "v \<in> set (panel_ids new_db_panels) \<longleftrightarrow> (\<exists>n. v = JInt n \<and> 200 \<le> n \<and> n \<le> 222)"
proof -
  have "set (panel_ids new_db_panels) = JInt ` {200..222}"
    unfolding new_db_ids by (simp only: set_map set_upto)
  then show ?thesis by (auto simp: image_iff)
qed


lemma panels_of_with_panels:
  "dashboard_panels d = Some ps \<Longrightarrow> panels_of (with_panels d ps') = ps'"
  by (simp add: panels_of_def dashboard_with_panels)

lemma insert_branch:
  assumes dp: "dashboard_panels d = Some ps" and no: "\<forall>p\<in>set ps. \<not> has300 p"
    and ok: "exit_status (add_tx_creation_panel_main d) = Exit 0"
  shows "\<exists>i ny sh. find_row ''Database Transactions'' ps 0 = Inr (Some i)
          \<and> (\<forall>p\<in>set ps. is_panel p)
          \<and> panel_y (ps ! i) = Some (ny - 1)
          \<and> for_each (shift_panel_tx ny 8) (drop (Suc i) ps) = Inr sh
          \<and> file_after (add_tx_creation_panel_main d) =
               with_panels d (take (Suc i) ps @ create_tx_creation_panel 300 0 (JInt ny) 24 8 # sh)"
proof -
  from main_tx_success[OF ok] dp obtain i where
    i: "find_row ''Database Transactions'' ps 0 = Inr (Some i)"
    and b: "panel_exists_loop ps = Inr True \<or> panel_exists_loop ps = Inr False" by auto
  from b no have f: "panel_exists_loop ps = Inr False"
    by (auto dest: exists_True_split)
  then have pans: "\<forall>p\<in>set ps. is_panel p" by (simp add: exists_False)
  note run = main_tx_insert[OF dp i f]
  from ok run obtain row_y where
    ry: "exc_bind (getitem (ps ! i) ''gridPos'') (\<lambda>g. getitem g ''y'') = Inr row_y"
    by (cases "exc_bind (getitem (ps ! i) ''gridPos'') (\<lambda>g. getitem g ''y'')")
       (auto simp: crashed_def)
  from ok run ry obtain ny where ny: "py_add row_y 1 = Inr ny"
    by (cases "py_add row_y 1") (auto simp: crashed_def)
  from ok run ry ny obtain sh where
    sh: "for_each (shift_panel_tx ny 8) (drop (Suc i) ps) = Inr sh"
    by (cases "for_each (shift_panel_tx ny 8) (drop (Suc i) ps)") (auto simp: crashed_def)
  have fa: "file_after (add_tx_creation_panel_main d) =
        with_panels d (take (Suc i) ps @ create_tx_creation_panel 300 0 (JInt ny) 24 8 # sh)"
    using run ry ny sh by simp
  from ry have "grid_y (ps ! i) = Some row_y" by (simp add: grid_y_getitem)
  moreover from ny obtain v where "num row_y = Some v" "ny = v + 1" by (auto simp: py_add_Inr)
  ultimately have "panel_y (ps ! i) = Some (ny - 1)" by (simp add: panel_y_grid_y)
  with i pans sh fa show ?thesis by blast
qed

lemma distinct_insert_mid:
  "distinct (a @ c) \<Longrightarrow> distinct b \<Longrightarrow> set b \<inter> (set a \<union> set c) = {} \<Longrightarrow> distinct (a @ b @ c)"
  by auto

lemma tx_ids_distinct:
  assumes dp: "dashboard_panels d = Some ps" and dis: "distinct (panel_ids ps)"
    and ok: "exit_status (add_tx_creation_panel_main d) = Exit 0"
  shows "distinct (panel_ids (panels_of (file_after (add_tx_creation_panel_main d))))"
proof (cases "\<exists>p\<in>set ps. has300 p")
  case True
  from update_branch[OF dp True ok] obtain xs p ys y where
    sp: "ps = xs @ p # ys" "has300 p"
    and fa: "file_after (add_tx_creation_panel_main d) =
               with_panels d (xs @ create_tx_creation_panel 300 0 y 24 8 # ys)" by blast
  have "panel_ids (xs @ create_tx_creation_panel 300 0 y 24 8 # ys) = panel_ids ps"
    using sp by (simp add: panel_ids_append create_tx_fields has300_def)
  then show ?thesis using dis by (simp add: fa panels_of_with_panels[OF dp])
next
  case False
  then have no: "\<forall>p\<in>set ps. \<not> has300 p" by simp
  from insert_branch[OF dp no ok] obtain i ny sh where
    sh: "for_each (shift_panel_tx ny 8) (drop (Suc i) ps) = Inr sh"
    and fa: "file_after (add_tx_creation_panel_main d) =
               with_panels d (take (Suc i) ps @ create_tx_creation_panel 300 0 (JInt ny) 24 8 # sh)"
    by blast
  have ids: "panel_ids (take (Suc i) ps @ create_tx_creation_panel 300 0 (JInt ny) 24 8 # sh)
        = panel_ids (take (Suc i) ps) @ [JInt 300] @ panel_ids (drop (Suc i) ps)"
    by (simp add: panel_ids_append create_tx_fields for_each_tx_ids[OF sh])
  have whole: "panel_ids (take (Suc i) ps) @ panel_ids (drop (Suc i) ps) = panel_ids ps"
    by (simp add: panel_ids_append[symmetric])
  have fresh: "JInt 300 \<notin> set (panel_ids ps)"
    using no by (simp add: set_panel_ids has300_def)
  have "distinct (panel_ids (take (Suc i) ps) @ [JInt 300] @ panel_ids (drop (Suc i) ps))"
  proof (rule distinct_insert_mid)
    show "distinct (panel_ids (take (Suc i) ps) @ panel_ids (drop (Suc i) ps))"
      using dis whole by simp
    show "distinct [JInt 300]" by simp
    show "set [JInt 300] \<inter> (set (panel_ids (take (Suc i) ps)) \<union> set (panel_ids (drop (Suc i) ps))) = {}"
      using fresh whole[symmetric] by simp
  qed
  then show ?thesis by (simp add: fa panels_of_with_panels[OF dp] ids)
qed

lemma db_ids:
  assumes ok: "exit_status (add_db_panels_main d) = Exit 0"
  shows "\<exists>ps k. dashboard_panels d = Some ps
          \<and> panel_ids (panels_of (file_after (add_db_panels_main d)))
             = panel_ids (take k ps) @ panel_ids new_db_panels @ panel_ids (drop k ps)"
proof -
  from main_db_success[OF ok] obtain ps k sh where
    dp: "dashboard_panels d = Some ps"
    and sh: "for_each (shift_panel_db 40) (drop k ps) = Inr sh"
    and fa: "file_after (add_db_panels_main d) = with_panels d (take k ps @ new_db_panels @ sh)"
    by blast
  have "panel_ids (panels_of (file_after (add_db_panels_main d)))
          = panel_ids (take k ps) @ panel_ids new_db_panels @ panel_ids (drop k ps)"
    by (simp add: fa panels_of_with_panels[OF dp] panel_ids_append for_each_db_ids[OF sh])
  with dp show ?thesis by blast
qed

lemma db_ids_distinct:
  assumes dp: "dashboard_panels d = Some ps" and dis: "distinct (panel_ids ps)"
    and fresh: "\<forall>n. 200 \<le> n \<and> n \<le> 222 \<longrightarrow> JInt n \<notin> set (panel_ids ps)"
    and ok: "exit_status (add_db_panels_main d) = Exit 0"
  shows "distinct (panel_ids (panels_of (file_after (add_db_panels_main d))))"
proof -
  from db_ids[OF ok] dp obtain k where
    ids: "panel_ids (panels_of (file_after (add_db_panels_main d)))
             = panel_ids (take k ps) @ panel_ids new_db_panels @ panel_ids (drop k ps)" by auto
  have whole: "panel_ids (take k ps) @ panel_ids (drop k ps) = panel_ids ps"
    by (simp add: panel_ids_append[symmetric])
  have "distinct (panel_ids (take k ps) @ panel_ids new_db_panels @ panel_ids (drop k ps))"
  proof (rule distinct_insert_mid)
    show "distinct (panel_ids (take k ps) @ panel_ids (drop k ps))" using dis whole by simp
    show "distinct (panel_ids new_db_panels)" by (rule distinct_new_db_ids)
    have "set (panel_ids new_db_panels) \<inter> set (panel_ids ps) = {}"
      using fresh by (auto simp: in_new_db_ids)
    then show "set (panel_ids new_db_panels)
        \<inter> (set (panel_ids (take k ps)) \<union> set (panel_ids (drop k ps))) = {}"
      using whole[symmetric] by (simp add: Un_commute)
  qed
  then show ?thesis by (simp add: ids)
qed

lemma db_rerun_duplicates:
  assumes ok1: "exit_status (add_db_panels_main d) = Exit 0"
    and ok2: "exit_status (add_db_panels_main (file_after (add_db_panels_main d))) = Exit 0"
  shows "\<not> distinct (panel_ids (panels_of (file_after
            (add_db_panels_main (file_after (add_db_panels_main d))))))"
proof -
  let ?d1 = "file_after (add_db_panels_main d)"
  from main_db_success[OF ok1] obtain ps k sh where
    dp: "dashboard_panels d = Some ps"
    and fa: "?d1 = with_panels d (take k ps @ new_db_panels @ sh)" by blast
  have dp1: "dashboard_panels ?d1 = Some (take k ps @ new_db_panels @ sh)"
    unfolding fa using dp by (rule dashboard_with_panels)
  from db_ids[OF ok2] dp1 obtain k' where
    ids: "panel_ids (panels_of (file_after (add_db_panels_main ?d1)))
      = panel_ids (take k' (take k ps @ new_db_panels @ sh)) @ panel_ids new_db_panels
        @ panel_ids (drop k' (take k ps @ new_db_panels @ sh))" by auto
  have new: "JInt 200 \<in> set (panel_ids new_db_panels)" by (simp add: in_new_db_ids)
  have whole: "panel_ids (take k' (take k ps @ new_db_panels @ sh))
      @ panel_ids (drop k' (take k ps @ new_db_panels @ sh))
      = panel_ids (take k ps @ new_db_panels @ sh)"
    by (rule panel_ids_take_drop)
  have "JInt 200 \<in> set (panel_ids (take k ps @ new_db_panels @ sh))"
    using new by (simp add: panel_ids_append)
  then have old: "JInt 200 \<in> set (panel_ids (take k' (take k ps @ new_db_panels @ sh)))
      \<union> set (panel_ids (drop k' (take k ps @ new_db_panels @ sh)))"
    unfolding whole[symmetric] by simp
  show ?thesis unfolding ids using new old by auto
qed


lemma find_row_prefix:
  assumes found: "find_row t ps 0 = Inr (Some i)" and ik: "i < k"
  shows "find_row t (take k ps @ rest) 0 = Inr (Some i)"
proof -
  from find_row_first[OF found] have il: "i < length ps" and row: "is_row_titled t (ps ! i)"
    and before: "\<forall>j<i. is_panel (ps ! j) \<and> \<not> is_row_titled t (ps ! j)" by auto
  have "i < length (take k ps)" using il ik by simp
  from id_take_nth_drop[OF this]
  have tk: "take k ps = take i ps @ ps ! i # drop (Suc i) (take k ps)"
    using ik by (simp add: min_def)
  have xs: "\<forall>p\<in>set (take i ps). is_panel p \<and> \<not> is_row_titled t p"
    using before il by (auto simp: in_set_conv_nth)
  have pan: "is_panel (ps ! i)" using row by (simp add: is_row_titled_def is_row_panel)
  have fr: "find_row t (take i ps @ ps ! i # (drop (Suc i) (take k ps) @ rest)) 0
          = Inr (Some (0 + length (take i ps)))"
    using xs pan row by (rule find_row_at)
  have len: "0 + length (take i ps) = i" using il by simp
  have eq: "take k ps @ rest = take i ps @ ps ! i # (drop (Suc i) (take k ps) @ rest)"
    using tk by (metis append_Cons append_assoc)
  from fr[unfolded len] show ?thesis unfolding eq .
qed

lemma section_end_step:
  "i < length ps \<Longrightarrow> is_panel (ps ! i) \<Longrightarrow>
   section_end ps i = (if is_row (ps ! i) then Inr i else section_end ps (Suc i))"
  by (subst section_end.simps)
     (auto simp: dict_get_panel is_row_def split: option.splits)

lemma section_end_at:
  assumes "i \<le> k" "k < length ps" "is_row (ps ! k)"
    "\<forall>j. i \<le> j \<and> j < k \<longrightarrow> is_panel (ps ! j) \<and> \<not> is_row (ps ! j)"
  shows "section_end ps i = Inr k"
  using assms
proof (induction "k - i" arbitrary: i)
  case 0
  then have "i = k" by simp
  with 0 show ?case by (simp add: section_end_step is_row_panel)
next
  case (Suc n)
  then have lt: "i < k" by simp
  with Suc.prems have here: "is_panel (ps ! i)" "\<not> is_row (ps ! i)" by auto
  have "section_end ps (Suc i) = Inr k"
  proof (rule Suc.hyps(1))
    show "n = k - Suc i" using Suc.hyps(2) by simp
    show "Suc i \<le> k" using lt by simp
    show "k < length ps" by (rule Suc.prems(2))
    show "is_row (ps ! k)" by (rule Suc.prems(3))
    show "\<forall>j. Suc i \<le> j \<and> j < k \<longrightarrow> is_panel (ps ! j) \<and> \<not> is_row (ps ! j)"
      using Suc.prems(4) by auto
  qed
  with here lt Suc.prems(2) show ?case by (simp add: section_end_step)
qed

lemma for_each_total:
  "\<forall>p\<in>set ps. \<exists>q. f p = Inr q \<Longrightarrow> \<exists>qs. for_each f ps = Inr qs"
  by (induction ps) auto

lemma add_y_total: "panel_y p = Some v \<Longrightarrow> \<exists>q. add_y p c = Inr q"
  by (cases p)
     (auto simp: add_y_def panel_y_def field_def is_panel_def py_add_Inr exc_bind_eq_Inr
           split: option.splits json.splits)

lemma shift_db_again:
  assumes "shift_panel_db c p = Inr q"
  shows "\<exists>q'. shift_panel_db c' q = Inr q'"
proof (cases "has_grid p")
  case True
  from shift_db_y[OF True assms] obtain v where "panel_y q = Some (v + c)" by blast
  moreover have "has_grid q" using assms True by (auto simp: shift_db_grid dest: add_y_Inr(4))
  ultimately show ?thesis by (auto simp: shift_db_grid dest: add_y_total)
next
  case False
  show ?thesis
  proof (cases "is_panel p")
    case True
    with False assms have "q = p" by (simp add: shift_db_nogrid)
    with True False show ?thesis by (simp add: shift_db_nogrid)
  next
    case np: False
    have "q = p" using np assms by (rule shift_db_nonpanel)
    with assms np show ?thesis
      by (cases p) (auto simp: shift_panel_db_def is_panel_def add_y_nonpanel split: if_splits)
  qed
qed

lemma ys_via_summary: "map panel_y ps = map summary_y (map summary ps)"
  by (simp add: summary_def summary_y_def panel_y_def)

lemma hs_via_summary: "map panel_h ps = map summary_h (map summary ps)"
  by (simp add: summary_def summary_h_def panel_h_def)

lemma rows_via_summary:
  "map is_row ps = map (\<lambda>s. fst (snd s) = Some (JStr ''row'')) (map summary ps)"
  by (simp add: summary_def is_row_def)

lemma new_db_ys:
  "map panel_y new_db_panels = map Some
     [17, 18, 18, 26, 26, 26, 26, 30, 31, 31, 39, 39, 42, 42, 39, 39, 42, 42, 45, 46, 46, 54, 54]"
  unfolding ys_via_summary new_db_summary by (simp add: summary_y_def grid_def field_def)

lemma new_db_hs:
  "map panel_h new_db_panels = map Some
     [1, 8, 8, 4, 4, 4, 4, 1, 8, 8, 6, 3, 3, 3, 3, 3, 3, 3, 1, 8, 8, 8, 8]"
  unfolding hs_via_summary new_db_summary by (simp add: summary_h_def grid_def field_def)

lemma new_db_rows:
  "map is_row new_db_panels =
     [True, False, False, False, False, False, False, True, False, False, False, False,
      False, False, False, False, False, False, True, False, False, False, False]"
  unfolding rows_via_summary new_db_summary by simp

lemma new_db_length: "length new_db_panels = 23"
  using arg_cong[OF new_db_rows, of length] by simp

lemma new_db_first_row: "is_row (new_db_panels ! 0)"
proof -
  have "map is_row new_db_panels ! 0 = True" unfolding new_db_rows by simp
  then show ?thesis by (simp add: new_db_length)
qed

lemma new_db_has_y: "p \<in> set new_db_panels \<Longrightarrow> \<exists>v. panel_y p = Some v"
proof -
  assume "p \<in> set new_db_panels"
  then have "panel_y p \<in> set (map panel_y new_db_panels)" by simp
  then show ?thesis unfolding new_db_ys by auto
qed

lemma panel_y_has_grid: "panel_y p = Some v \<Longrightarrow> has_grid p"
  by (auto simp: panel_y_def has_grid_def split: option.splits)

lemma db_rerun_completes:
  assumes ok1: "exit_status (add_db_panels_main d) = Exit 0"
  shows "exit_status (add_db_panels_main (file_after (add_db_panels_main d))) = Exit 0"
proof -
  let ?d1 = "file_after (add_db_panels_main d)"
  from main_db_success[OF ok1] obtain ps i k sh where
    dp: "dashboard_panels d = Some ps"
    and found: "find_row ''Database'' ps 0 = Inr (Some i)"
    and sec: "section_end ps (Suc i) = Inr k"
    and sh: "for_each (shift_panel_db 40) (drop k ps) = Inr sh"
    and fa: "?d1 = with_panels d (take k ps @ new_db_panels @ sh)" by blast
  let ?ps1 = "take k ps @ new_db_panels @ sh"
  have dp1: "dashboard_panels ?d1 = Some ?ps1"
    unfolding fa using dp by (rule dashboard_with_panels)
  from find_row_first[OF found] have il: "i < length ps" by simp
  from section_end_spec[OF sec] il
  have ik: "i < k" and kl: "k \<le> length ps"
    and mid: "\<forall>j. Suc i \<le> j \<and> j < k \<longrightarrow> is_panel (ps ! j) \<and> \<not> is_row (ps ! j)" by auto
  have found1: "find_row ''Database'' ?ps1 0 = Inr (Some i)"
    using found ik by (rule find_row_prefix)
  have sec1: "section_end ?ps1 (Suc i) = Inr k"
  proof (rule section_end_at)
    show "Suc i \<le> k" using ik by simp
    show "k < length ?ps1" using kl by (simp add: new_db_length)
    show "is_row (?ps1 ! k)" using kl new_db_first_row by (simp add: nth_append new_db_length)
    show "\<forall>j. Suc i \<le> j \<and> j < k \<longrightarrow> is_panel (?ps1 ! j) \<and> \<not> is_row (?ps1 ! j)"
      using mid kl by (auto simp: nth_append)
  qed
  have d1: "drop k ?ps1 = new_db_panels @ sh" using kl by simp
  have "\<forall>p\<in>set (new_db_panels @ sh). \<exists>q. shift_panel_db 40 p = Inr q"
  proof
    fix p assume "p \<in> set (new_db_panels @ sh)"
    then consider "p \<in> set new_db_panels" | "p \<in> set sh" by auto
    then show "\<exists>q. shift_panel_db 40 p = Inr q"
    proof cases
      case 1
      from new_db_has_y[OF 1] obtain v where v: "panel_y p = Some v" by blast
      then show ?thesis using add_y_total[OF v, of 40]
        by (simp add: shift_db_grid panel_y_has_grid)
    next
      case 2
      then obtain j where j: "j < length sh" "p = sh ! j" by (auto simp: in_set_conv_nth)
      from sh have "length sh = length (drop k ps)"
        and "\<forall>j<length (drop k ps). shift_panel_db 40 (drop k ps ! j) = Inr (sh ! j)"
        by (simp_all add: for_each_Inr)
      with j have "shift_panel_db 40 (drop k ps ! j) = Inr p" by simp
      then show ?thesis by (rule shift_db_again)
    qed
  qed
  from for_each_total[OF this] obtain sh1 where
    "for_each (shift_panel_db 40) (drop k ?ps1) = Inr sh1" unfolding d1 by blast
  with main_db_found[OF dp1 found1 sec1] show ?thesis by simp
qed

lemma sample_db_facts:
  "dashboard_panels sample_db = Some sample_db_panels"
  "find_row ''Database'' sample_db_panels 0 = Inr (Some 0)"
  "section_end sample_db_panels (Suc 0) = Inr 3"
  "for_each (shift_panel_db 40) (drop 3 sample_db_panels) = Inr [
     JObj [(''id'', JInt 4), (''type'', JStr ''row''), (''title'', JStr ''Network''),
           (''gridPos'', grid 1 24 0 60)],
     JObj [(''id'', JInt 5), (''type'', JStr ''text'')],
     JObj [(''id'', JInt 6), (''type'', JStr ''stat''), (''title'', JStr ''Peers''),
           (''gridPos'', grid 4 6 0 61)]]"
  "panel_ids sample_db_panels = [JInt 1, JInt 2, JInt 3, JInt 4, JInt 5, JInt 6]"
  by code_simp+

lemma sample_db_completes: "exit_status (add_db_panels_main sample_db) = Exit 0"
  by (simp add: main_db_found[OF sample_db_facts(1,2,3)] sample_db_facts(4))

lemma sample_db_fresh:
  "distinct (panel_ids sample_db_panels)"
  "\<forall>n. 200 \<le> n \<and> n \<le> 222 \<longrightarrow> JInt n \<notin> set (panel_ids sample_db_panels)"
  unfolding sample_db_facts(5) by auto


text \<open>
  C5 (as amended). If the ids of the input's panels are unique, they are unique after the
  singleton script has completed, also when it is run again on its own output; after the bulk
  script has completed they are unique provided that no input panel already carries one of the
  ids 200 to 222 that \<open>generate_db_panels\<close> hands out.
\<close>

theorem ids_stay_unique:
  "(dashboard_panels d = Some ps \<and> distinct (panel_ids ps)
      \<and> exit_status (add_tx_creation_panel_main d) = Exit 0
     \<longrightarrow> distinct (panel_ids (panels_of (file_after (add_tx_creation_panel_main d))))
       \<and> distinct (panel_ids (panels_of (file_after
            (add_tx_creation_panel_main (file_after (add_tx_creation_panel_main d)))))))
   \<and> (dashboard_panels d = Some ps \<and> distinct (panel_ids ps)
      \<and> (\<forall>n. 200 \<le> n \<and> n \<le> 222 \<longrightarrow> JInt n \<notin> set (panel_ids ps))
      \<and> exit_status (add_db_panels_main d) = Exit 0
     \<longrightarrow> distinct (panel_ids (panels_of (file_after (add_db_panels_main d)))))"
  using tx_ids_distinct[of d ps] db_ids_distinct[of d ps] by (simp add: tx_idempotent)

theorem ids_stay_unique_witness:
  "dashboard_panels sample_tx = Some sample_tx_panels \<and> distinct (panel_ids sample_tx_panels)
   \<and> exit_status (add_tx_creation_panel_main sample_tx) = Exit 0
   \<and> distinct (panel_ids (panels_of (file_after (add_tx_creation_panel_main sample_tx))))
   \<and> distinct (panel_ids (panels_of (file_after
        (add_tx_creation_panel_main (file_after (add_tx_creation_panel_main sample_tx))))))
   \<and> dashboard_panels sample_db = Some sample_db_panels \<and> distinct (panel_ids sample_db_panels)
   \<and> \<not> (\<exists>n. 200 \<le> n \<and> n \<le> 222 \<and> JInt n \<in> set (panel_ids sample_db_panels))
   \<and> exit_status (add_db_panels_main sample_db) = Exit 0
   \<and> distinct (panel_ids (panels_of (file_after (add_db_panels_main sample_db))))"
proof -
  have t: "dashboard_panels sample_tx = Some sample_tx_panels"
    "distinct (panel_ids sample_tx_panels)"
    "exit_status (add_tx_creation_panel_main sample_tx) = Exit 0"
    by code_simp+
  note b = sample_db_facts(1) sample_db_fresh sample_db_completes
  from ids_stay_unique[of sample_tx sample_tx_panels] ids_stay_unique[of sample_db sample_db_panels]
    t b show ?thesis by blast
qed


text \<open>
  The claim as stated fails for the bulk script run again on its own output: it has no check
  for panels it inserted before, completes a second time and inserts the ids 200 to 222 again.
\<close>

theorem bulk_rerun_duplicates_counterexample:
  "exit_status (add_db_panels_main sample_db) = Exit 0
   \<and> distinct (panel_ids (panels_of (file_after (add_db_panels_main sample_db))))
   \<and> exit_status (add_db_panels_main (file_after (add_db_panels_main sample_db))) = Exit 0
   \<and> \<not> distinct (panel_ids (panels_of (file_after
          (add_db_panels_main (file_after (add_db_panels_main sample_db))))))"
  using sample_db_completes
    db_ids_distinct[OF sample_db_facts(1) sample_db_fresh sample_db_completes]
    db_rerun_completes[OF sample_db_completes]
    db_rerun_duplicates[OF sample_db_completes db_rerun_completes[OF sample_db_completes]]
  by blast

subsection \<open>The offset shift\<close>



lemma new_db_first_y: "panel_y (new_db_panels ! 0) = Some 17"
proof -
  have "map panel_y new_db_panels ! 0 = Some 17" unfolding new_db_ys by simp
  then show ?thesis by (simp add: new_db_length)
qed

text \<open>
  The bulk script shifts by its constant 40, which its comment calls the approximate total
  height of the new panels; the block \<open>generate_db_panels\<close> lays out starts at \<open>y = 17\<close> and
  its last panels end at \<open>y = 54 + 8\<close>, 45 grid rows in all.
\<close>

lemma bulk_block_taller_than_offset:
  "panel_y (new_db_panels ! 0) = Some 17 \<and> panel_y (new_db_panels ! 22) = Some 54
   \<and> panel_h (new_db_panels ! 22) = Some 8 \<and> (54 + 8) - 17 = (45::int)"
proof -
  have "map panel_y new_db_panels ! 22 = Some 54" unfolding new_db_ys by simp
  moreover have "map panel_h new_db_panels ! 22 = Some 8" unfolding new_db_hs by simp
  ultimately show ?thesis by (simp add: new_db_length new_db_first_y)
qed






subsection \<open>The concrete scenario for the bulk script\<close>

lemma scenario_facts:
  "dashboard_panels scenario_db = Some scenario_panels"
  "find_row ''Database'' scenario_panels 0 = Inr (Some 0)"
  "section_end scenario_panels (Suc 0) = Inr 2"
  "for_each (shift_panel_db 40) (drop 2 scenario_panels) = Inr []"
  "take 2 scenario_panels = scenario_panels"
  "field ''id'' (scenario_panels ! Suc 0) = Some (JInt 2)"
  "panel_y (scenario_panels ! Suc 0) = Some 12"
  "length scenario_panels = 2"
  by code_simp+

lemma scenario_run:
  "exit_status (add_db_panels_main scenario_db) = Exit 0"
  "panels_of (file_after (add_db_panels_main scenario_db)) = scenario_panels @ new_db_panels"
  by (simp_all add: main_db_found[OF scenario_facts(1,2,3)] scenario_facts(4,5)
        panels_of_with_panels[OF scenario_facts(1)])

text \<open>
  C4 (as amended). On the dashboard with the row \<^verbatim>\<open>Database\<close> (id 1, \<open>y = 10\<close>) followed by the
  stat panel id 2 (\<open>y = 12\<close>) the bulk script completes, the insertion index is 2, the end of the
  section, so panel id 2 stays at index 1 with \<open>y = 12\<close>, and the 23 generated panels with the ids
  200 to 222 follow it, at the \<open>y\<close> values 17 to 54 that \<open>generate_db_panels\<close> fixes; the last of
  them have height 8, so the block occupies \<open>y = 17\<close> through \<open>y = 62\<close>.
\<close>

theorem bulk_scenario:
  "exit_status (add_db_panels_main scenario_db) = Exit 0
   \<and> panels_of (file_after (add_db_panels_main scenario_db)) = scenario_panels @ new_db_panels
   \<and> field ''id'' (panels_of (file_after (add_db_panels_main scenario_db)) ! 1) = Some (JInt 2)
   \<and> panel_y (panels_of (file_after (add_db_panels_main scenario_db)) ! 1) = Some 12
   \<and> panel_ids new_db_panels = map JInt [200..222]
   \<and> map panel_y new_db_panels = map Some
       [17, 18, 18, 26, 26, 26, 26, 30, 31, 31, 39, 39, 42, 42, 39, 39, 42, 42, 45, 46, 46, 54, 54]
   \<and> map panel_h new_db_panels = map Some
       [1, 8, 8, 4, 4, 4, 4, 1, 8, 8, 6, 3, 3, 3, 3, 3, 3, 3, 1, 8, 8, 8, 8]"
proof -
  have 1: "field ''id'' (panels_of (file_after (add_db_panels_main scenario_db)) ! 1) = Some (JInt 2)"
    unfolding scenario_run(2) by (simp add: nth_append scenario_facts(6,8))
  have 2: "panel_y (panels_of (file_after (add_db_panels_main scenario_db)) ! 1) = Some 12"
    unfolding scenario_run(2) by (simp add: nth_append scenario_facts(7,8))
  show ?thesis by (intro conjI) (rule scenario_run 1 2 new_db_ids new_db_ys new_db_hs)+
qed


text \<open>
  The claim as stated (panel id 2 moved to \<open>y = 52\<close>, the new panels from \<open>y = 11\<close>) fails: panel
  id 2 does not have \<open>y = 52\<close>, and the first new panel is not at \<open>y = 11\<close>.
\<close>

theorem bulk_scenario_counterexample:
  "field ''id'' (panels_of (file_after (add_db_panels_main scenario_db)) ! 1) = Some (JInt 2)
   \<and> panel_y (panels_of (file_after (add_db_panels_main scenario_db)) ! 1) \<noteq> Some 52
   \<and> field ''id'' (panels_of (file_after (add_db_panels_main scenario_db)) ! 2) = Some (JInt 200)
   \<and> panel_y (panels_of (file_after (add_db_panels_main scenario_db)) ! 2) \<noteq> Some 11"
proof -
  have 1: "field ''id'' (panels_of (file_after (add_db_panels_main scenario_db)) ! 1) = Some (JInt 2)"
    unfolding scenario_run(2) by (simp add: nth_append scenario_facts(6,8))
  have 2: "panel_y (panels_of (file_after (add_db_panels_main scenario_db)) ! 1) \<noteq> Some 52"
    unfolding scenario_run(2) by (simp add: nth_append scenario_facts(7,8))
  have "map (field ''id'') new_db_panels ! 0 = Some (JInt 200)"
    unfolding new_db_id_fields by (simp add: upto.simps)
  then have 3: "field ''id'' (panels_of (file_after (add_db_panels_main scenario_db)) ! 2) = Some (JInt 200)"
    unfolding scenario_run(2) by (simp add: nth_append scenario_facts(8) new_db_length)
  have 4: "panel_y (panels_of (file_after (add_db_panels_main scenario_db)) ! 2) \<noteq> Some 11"
    unfolding scenario_run(2) by (simp add: nth_append scenario_facts(8) new_db_first_y)
  show ?thesis by (intro conjI) (rule 1 2 3 4)+
qed


subsection \<open>The factories\<close>

text \<open>
  The five factories read their parameters and nothing else (no global, no file, no dashboard)
  and build their record anew at every call; that is why each of them is a function of its
  parameters here. That they are pure and deterministic (C9) is therefore what this embedding
  presupposes of the Python text, not a property a theorem about these functions could confirm
  or refute: for any function whatever, equal arguments give equal results. What can
  be read off the definitions is the shape of the records: the keys of each kind, the
  \<^verbatim>\<open>id\<close>, \<^verbatim>\<open>title\<close> and \<^verbatim>\<open>type\<close> asked for, and the rectangle holding \<open>h\<close>, \<open>w\<close>, \<open>x\<close> and \<open>y\<close> as
  passed (the row divider has the fixed \<open>h = 1\<close>, \<open>w = 24\<close>, \<open>x = 0\<close>).
\<close>

lemma factory_records:
  "summary (create_row_panel title y_pos panel_id)
     = (Some (JInt panel_id), Some (JStr ''row''), Some (grid 1 24 0 y_pos))
   \<and> field ''title'' (create_row_panel title y_pos panel_id) = Some (JStr title)
   \<and> keys (create_row_panel title y_pos panel_id)
     = [''collapsed'', ''gridPos'', ''id'', ''panels'', ''title'', ''type'']
   \<and> summary (create_timeseries_panel title expr legend_format x y w h panel_id description unit)
     = (Some (JInt panel_id), Some (JStr ''timeseries''), Some (grid h w x y))
   \<and> field ''title'' (create_timeseries_panel title expr legend_format x y w h panel_id description unit)
     = Some (JStr title)
   \<and> field ''targets'' (create_timeseries_panel title expr legend_format x y w h panel_id description unit)
     = Some (JArr [target expr legend_format ''A''])
   \<and> keys (create_timeseries_panel title expr legend_format x y w h panel_id description unit)
     = [''datasource'', ''description'', ''fieldConfig'', ''gridPos'', ''id'', ''options'',
        ''targets'', ''title'', ''type'']
   \<and> summary (create_stat_panel title expr x y w h panel_id description unit colorMode)
     = (Some (JInt panel_id), Some (JStr ''stat''), Some (grid h w x y))
   \<and> field ''title'' (create_stat_panel title expr x y w h panel_id description unit colorMode)
     = Some (JStr title)
   \<and> keys (create_stat_panel title expr x y w h panel_id description unit colorMode)
     = [''datasource'', ''description'', ''fieldConfig'', ''gridPos'', ''id'', ''options'',
        ''pluginVersion'', ''targets'', ''title'', ''type'']
   \<and> summary (create_gauge_panel title expr x y w h panel_id description max_value)
     = (Some (JInt panel_id), Some (JStr ''gauge''), Some (grid h w x y))
   \<and> field ''title'' (create_gauge_panel title expr x y w h panel_id description max_value)
     = Some (JStr title)
   \<and> keys (create_gauge_panel title expr x y w h panel_id description max_value)
     = [''datasource'', ''description'', ''fieldConfig'', ''gridPos'', ''id'', ''options'',
        ''pluginVersion'', ''targets'', ''title'', ''type'']
   \<and> field ''id'' (create_tx_creation_panel pid tx ty tw th) = Some (JInt pid)
   \<and> field ''type'' (create_tx_creation_panel pid tx ty tw th) = Some (JStr ''timeseries'')
   \<and> field ''title'' (create_tx_creation_panel pid tx ty tw th) = Some (JStr ''Transaction Creation'')
   \<and> field ''gridPos'' (create_tx_creation_panel pid tx ty tw th)
     = Some (JObj [(''h'', JInt th), (''w'', JInt tw), (''x'', JInt tx), (''y'', ty)])
   \<and> keys (create_tx_creation_panel pid tx ty tw th)
     = [''datasource'', ''description'', ''fieldConfig'', ''gridPos'', ''id'', ''options'',
        ''pluginVersion'', ''targets'', ''title'', ''type'']"
proof -
  have r: "summary (create_row_panel title y_pos panel_id)
     = (Some (JInt panel_id), Some (JStr ''row''), Some (grid 1 24 0 y_pos))"
    "field ''title'' (create_row_panel title y_pos panel_id) = Some (JStr title)"
    "keys (create_row_panel title y_pos panel_id)
     = [''collapsed'', ''gridPos'', ''id'', ''panels'', ''title'', ''type'']"
    by (simp_all add: create_row_panel_def summary_def field_def grid_def keys_def)
  have t: "summary (create_timeseries_panel title expr legend_format x y w h panel_id description unit)
     = (Some (JInt panel_id), Some (JStr ''timeseries''), Some (grid h w x y))"
    "field ''title'' (create_timeseries_panel title expr legend_format x y w h panel_id description unit)
     = Some (JStr title)"
    "field ''targets'' (create_timeseries_panel title expr legend_format x y w h panel_id description unit)
     = Some (JArr [target expr legend_format ''A''])"
    "keys (create_timeseries_panel title expr legend_format x y w h panel_id description unit)
     = [''datasource'', ''description'', ''fieldConfig'', ''gridPos'', ''id'', ''options'',
        ''targets'', ''title'', ''type'']"
    by (simp_all add: create_timeseries_panel_def summary_def field_def grid_def keys_def target_def)
  have s: "summary (create_stat_panel title expr x y w h panel_id description unit colorMode)
     = (Some (JInt panel_id), Some (JStr ''stat''), Some (grid h w x y))"
    "field ''title'' (create_stat_panel title expr x y w h panel_id description unit colorMode)
     = Some (JStr title)"
    "keys (create_stat_panel title expr x y w h panel_id description unit colorMode)
     = [''datasource'', ''description'', ''fieldConfig'', ''gridPos'', ''id'', ''options'',
        ''pluginVersion'', ''targets'', ''title'', ''type'']"
    by (simp_all add: create_stat_panel_def summary_def field_def grid_def keys_def)
  have g: "summary (create_gauge_panel title expr x y w h panel_id description max_value)
     = (Some (JInt panel_id), Some (JStr ''gauge''), Some (grid h w x y))"
    "field ''title'' (create_gauge_panel title expr x y w h panel_id description max_value)
     = Some (JStr title)"
    "keys (create_gauge_panel title expr x y w h panel_id description max_value)
     = [''datasource'', ''description'', ''fieldConfig'', ''gridPos'', ''id'', ''options'',
        ''pluginVersion'', ''targets'', ''title'', ''type'']"
    by (simp_all add: create_gauge_panel_def summary_def field_def grid_def keys_def)
  have c: "keys (create_tx_creation_panel pid tx ty tw th)
     = [''datasource'', ''description'', ''fieldConfig'', ''gridPos'', ''id'', ''options'',
        ''pluginVersion'', ''targets'', ''title'', ''type'']"
    by (simp add: create_tx_creation_panel_def keys_def)
  show ?thesis by (intro conjI) (rule r t s g c create_tx_fields)+
qed

end
